theory Spec2Isabelle
  imports Complex_Main
begin

section \<open>The legacy telemetry generator (services/pascal-legacy/legacy.py)\<close>

text \<open>
  The program is a loop around one function, \<open>generate_and_insert\<close>, that reads its
  configuration from the process environment, reads the clock, draws two random numbers,
  writes a CSV file and inserts one row into PostgreSQL. Everything it does is an effect,
  so the embedding threads a \<open>world\<close> through the code: the environment, the clock, the
  random source, the files, and the trace of the external calls made so far. An external
  call that can raise takes its outcome from a \<open>faults\<close> record, one per loop iteration.
\<close>

subsection \<open>Exceptions\<close>

text \<open>
  The part of Python's exception hierarchy the handlers tell apart: \<open>psycopg2.Error\<close>
  and every other constructor but the last two are subclasses of \<open>Exception\<close>;
  \<open>KeyboardInterrupt\<close> and \<open>SystemExit\<close> derive from \<open>BaseException\<close> only.
\<close>

datatype exn =
    OSError string
  | ValueError string
  | KeyError string
  | OverflowError string
  | Psycopg2Error string
  | OtherException string
  | KeyboardInterrupt
  | SystemExit

fun is_Exception :: "exn \<Rightarrow> bool" where
  "is_Exception KeyboardInterrupt = False"
| "is_Exception SystemExit = False"
| "is_Exception _ = True"

fun is_psycopg2_Error :: "exn \<Rightarrow> bool" where
  "is_psycopg2_Error (Psycopg2Error _) = True"
| "is_psycopg2_Error _ = False"

subsection \<open>Values, dictionaries, timestamps\<close>

text \<open>
  A finite Python float denotes a rational number, and floats are modelled as rationals
  with exact arithmetic: the rounding of each IEEE operation to the nearest double is
  left out, so \<open>3.2\<close> is the number 16/5 and \<open>round(x, 2)\<close> a multiple of 1/100.
\<close>

type_synonym pyfloat = rat

datatype pyval = PyStr string | PyFloat pyfloat

text \<open>A dict keeps insertion order; \<open>d[k] = v\<close> replaces in place or appends.\<close>

type_synonym pydict = "(string \<times> pyval) list"

fun dict_set :: "string \<Rightarrow> pyval \<Rightarrow> pydict \<Rightarrow> pydict" where
  "dict_set k v [] = [(k, v)]"
| "dict_set k v (p # ps) = (if fst p = k then (k, v) # ps else p # dict_set k v ps)"

definition dict_get :: "pydict \<Rightarrow> string \<Rightarrow> exn + pyval" where
  \<comment> \<open>\<open>d[k]\<close>, raising KeyError\<close>
  "dict_get d k = (case map_of d k of None \<Rightarrow> Inl (KeyError k) | Some v \<Rightarrow> Inr v)"

record datetime =
  year :: nat
  month :: nat
  day :: nat
  hour :: nat
  minute :: nat
  second :: nat

definition digit :: "nat \<Rightarrow> char" where
  "digit n = ''0123456789'' ! (n mod 10)"

fun decimal :: "nat \<Rightarrow> string" where
  "decimal n = (if n < 10 then [digit n] else decimal (n div 10) @ [digit n])"

declare decimal.simps [simp del]

definition zfill :: "nat \<Rightarrow> string \<Rightarrow> string" where
  "zfill k s = replicate (k - length s) (CHR ''0'') @ s"

definition directive :: "char \<Rightarrow> datetime \<Rightarrow> string" where
  \<comment> \<open>the strftime directives the program uses, as the C library formats them:
      \<open>%Y\<close> is the year without padding, the others are two digits\<close>
  "directive c t =
     (if c = CHR ''Y'' then decimal (year t)
      else if c = CHR ''m'' then zfill 2 (decimal (month t))
      else if c = CHR ''d'' then zfill 2 (decimal (day t))
      else if c = CHR ''H'' then zfill 2 (decimal (hour t))
      else if c = CHR ''M'' then zfill 2 (decimal (minute t))
      else if c = CHR ''S'' then zfill 2 (decimal (second t))
      else [CHR ''%'', c])"

fun strftime :: "string \<Rightarrow> datetime \<Rightarrow> string" where
  "strftime [] t = []"
| "strftime [c] t = [c]"
| "strftime (c # d # fmt) t =
     (if c = CHR ''%'' then directive d t @ strftime fmt t
      else c # strftime (d # fmt) t)"

declare strftime.simps [simp del]

definition os_path_join :: "string \<Rightarrow> string \<Rightarrow> string" where
  \<comment> \<open>posixpath.join with two arguments\<close>
  "os_path_join a b =
     (if b \<noteq> [] \<and> hd b = CHR ''/'' then b
      else if a = [] \<or> last a = CHR ''/'' then a @ b
      else a @ ''/'' @ b)"

definition repr_char :: "char \<Rightarrow> char \<Rightarrow> string" where
  "repr_char q c =
     (if c = q \<or> c = CHR 0x5C then [CHR 0x5C, c]
      else if c = CHR 0x09 then [CHR 0x5C, CHR ''t'']
      else if c = CHR 0x0A then [CHR 0x5C, CHR ''n'']
      else if c = CHR 0x0D then [CHR 0x5C, CHR ''r'']
      else if (of_char c :: nat) < 32 \<or> c = CHR 0x7F
      then [CHR 0x5C, CHR ''x'', ''0123456789abcdef'' ! (of_char c div 16),
            ''0123456789abcdef'' ! (of_char c mod 16)]
      else [c])"

definition py_repr :: "string \<Rightarrow> string" where
  \<comment> \<open>\<open>repr(s)\<close> of a string of ASCII characters: in single quotes, or in double
      quotes when it holds a single quote and no double quote\<close>
  "py_repr s =
     (let q = (if CHR 0x27 \<in> set s \<and> CHR 0x22 \<notin> set s then CHR 0x22 else CHR 0x27)
      in q # concat (map (repr_char q) s) @ [q])"

definition is_ascii :: "string \<Rightarrow> bool" where
  "is_ascii s = list_all (\<lambda>c. (of_char c :: nat) < 128) s"

subsection \<open>The world and the trace of external calls\<close>

datatype stream = Stdout | Stderr

text \<open>One constructor per \<open>print\<close> statement of the source, with the values it formats.\<close>

datatype message =
    Starting int
  | OutputDirectory string
  | Database string string string
  | CsvCreated string
  | ErrorWritingCsv exn
  | DataInserted pyval pyval
  | DatabaseError exn
  | UnexpectedError exn
  | LegacyError exn

text \<open>
  An event is a call the program makes to the outside, recorded when it is made, whether
  or not it then raises.
\<close>

datatype event =
    Getenv string
  | Now datetime
  | Random pyfloat
  | Mkdir string
  | Open string
  | Writeheader string "string list"
  | Writerow string "pyval list"
  | Fclose string
  | Connect string string string string string
  | Cursor
  | Execute string "pyval list"
  | Commit
  | CursorClose
  | ConnClose
  | Print stream message
  | Sleep int

text \<open>
  \<open>clock\<close> is what the successive reads of \<open>datetime.now()\<close> return and \<open>samples\<close> the
  successive 53-bit outputs of the random generator; \<open>ticks\<close> and \<open>drawn\<close> count the reads
  made. A file's contents are the CSV records written to it.
\<close>

record world =
  environ :: "string \<rightharpoonup> string"
  clock :: "nat \<Rightarrow> datetime"
  ticks :: nat
  samples :: "nat \<Rightarrow> nat"
  drawn :: nat
  files :: "string \<rightharpoonup> pyval list list"
  trace :: "event list"

text \<open>
  The outcome of each external call of one iteration that can raise: \<open>None\<close> when it
  succeeds. The calls of \<open>print\<close>, \<open>os.environ.get\<close>, \<open>datetime.now\<close>, \<open>random.uniform\<close>
  and the cursor's \<open>close\<close> are taken to succeed.
\<close>

record faults =
  mkdir_fault :: "exn option"
  open_fault :: "exn option"
  writeheader_fault :: "exn option"
  writerow_fault :: "exn option"
  fclose_fault :: "exn option"
  connect_fault :: "exn option"
  cursor_fault :: "exn option"
  execute_fault :: "exn option"
  commit_fault :: "exn option"
  close_fault :: "exn option"
  sleep_fault :: "exn option"

definition emit :: "event \<Rightarrow> world \<Rightarrow> world" where
  "emit ev w = w\<lparr>trace := trace w @ [ev]\<rparr>"

definition print :: "stream \<Rightarrow> message \<Rightarrow> world \<Rightarrow> world" where
  "print s m w = emit (Print s m) w"

definition get_env :: "string \<Rightarrow> string \<Rightarrow> world \<Rightarrow> string \<times> world" where
  \<comment> \<open>\<open>os.environ.get(name, default)\<close>\<close>
  "get_env name dflt w =
     (case environ w name of Some v \<Rightarrow> v | None \<Rightarrow> dflt, emit (Getenv name) w)"

definition datetime_now :: "world \<Rightarrow> datetime \<times> world" where
  "datetime_now w =
     (let t = clock w (ticks w) in (t, emit (Now t) (w\<lparr>ticks := Suc (ticks w)\<rparr>)))"

definition draw :: "world \<Rightarrow> nat \<Rightarrow> pyfloat" where
  \<comment> \<open>the \<open>i\<close>-th value of \<open>random.random()\<close>: 53 random bits over \<open>2 ^ 53\<close>\<close>
  "draw w i = of_nat (samples w i mod 2 ^ 53) / 2 ^ 53"

definition random_random :: "world \<Rightarrow> pyfloat \<times> world" where
  "random_random w =
     (let u = draw w (drawn w) in (u, emit (Random u) (w\<lparr>drawn := Suc (drawn w)\<rparr>)))"

definition random_uniform :: "pyfloat \<Rightarrow> pyfloat \<Rightarrow> world \<Rightarrow> pyfloat \<times> world" where
  \<comment> \<open>\<open>random.uniform(a, b)\<close> is \<open>a + (b - a) * self.random()\<close>\<close>
  "random_uniform a b w = (let (u, w1) = random_random w in (a + (b - a) * u, w1))"

definition round_half_even :: "pyfloat \<Rightarrow> int" where
  "round_half_even y =
     (let f = \<lfloor>y\<rfloor>; d = y - of_int f
      in if d < 1 / 2 then f else if 1 / 2 < d then f + 1 else if even f then f else f + 1)"

definition py_round :: "pyfloat \<Rightarrow> nat \<Rightarrow> pyfloat" where
  \<comment> \<open>\<open>round(x, ndigits)\<close>: the closest multiple of \<open>10 ^ - ndigits\<close>, a tie going to the
      even choice\<close>
  "py_round x ndigits = of_int (round_half_even (x * 10 ^ ndigits)) / 10 ^ ndigits"

subsection \<open>generate\_csv\_row\<close>

text \<open>The dict display evaluates its values in order: the clock, then the two draws.\<close>

definition generate_csv_row :: "world \<Rightarrow> pydict \<times> world" where
  "generate_csv_row w =
     (let (t, w1) = datetime_now w;
          (v, w2) = random_uniform 3.2 12.6 w1;
          (c, w3) = random_uniform (- 50.0) 80.0 w2
      in ([(''recorded_at'', PyStr (strftime ''%Y-%m-%d %H:%M:%S'' t)),
           (''voltage'', PyFloat (py_round v 2)),
           (''temp'', PyFloat (py_round c 2))], w3))"

subsection \<open>generate\_and\_insert\<close>

definition fieldnames :: "string list" where
  "fieldnames = [''recorded_at'', ''voltage'', ''temp'', ''source_file'']"

definition dict_to_list :: "pydict \<Rightarrow> exn + pyval list" where
  \<comment> \<open>csv.DictWriter: a key outside the field names raises; a missing one gives \<open>''\<close>.
      Python joins the wrong keys in the order of a set; the model takes the dict's.\<close>
  "dict_to_list d =
     (if \<exists>k \<in> set (map fst d). k \<notin> set fieldnames
      then Inl (ValueError (''dict contains fields not in fieldnames: '' @
                  concat (map (\<lambda>k. py_repr k @ '', '')
                            (butlast (filter (\<lambda>k. k \<notin> set fieldnames) (map fst d)))) @
                  py_repr (last (filter (\<lambda>k. k \<notin> set fieldnames) (map fst d)))))
      else Inr (map (\<lambda>k. case map_of d k of Some v \<Rightarrow> v | None \<Rightarrow> PyStr []) fieldnames))"

definition append_record :: "string \<Rightarrow> pyval list \<Rightarrow> world \<Rightarrow> world" where
  "append_record p r w =
     w\<lparr>files := (files w)(p \<mapsto> (case files w p of Some rs \<Rightarrow> rs | None \<Rightarrow> []) @ [r])\<rparr>"

definition write_rows :: "faults \<Rightarrow> string \<Rightarrow> pydict \<Rightarrow> world \<Rightarrow> (exn + unit) \<times> world" where
  \<comment> \<open>lines 54-56, the body of the \<open>with\<close> statement\<close>
  "write_rows flt filepath d w =
     (let w1 = emit (Writeheader filepath fieldnames) w in
      case writeheader_fault flt of
        Some e \<Rightarrow> (Inl e, w1)
      | None \<Rightarrow>
          let w2 = append_record filepath (map PyStr fieldnames) w1 in
          (case dict_to_list d of
             Inl e \<Rightarrow> (Inl e, w2)
           | Inr r \<Rightarrow>
               let w3 = emit (Writerow filepath r) w2 in
               (case writerow_fault flt of
                  Some e \<Rightarrow> (Inl e, w3)
                | None \<Rightarrow> (Inr (), append_record filepath r w3))))"

definition write_csv :: "faults \<Rightarrow> string \<Rightarrow> pydict \<Rightarrow> world \<Rightarrow> (exn + unit) \<times> world" where
  \<comment> \<open>lines 53-56: \<open>open(filepath, 'w')\<close> truncates; leaving the \<open>with\<close> closes the file
      on both paths, and an exception of the close replaces the one in flight\<close>
  "write_csv flt filepath d w =
     (let w1 = emit (Open filepath) w in
      case open_fault flt of
        Some e \<Rightarrow> (Inl e, w1)
      | None \<Rightarrow>
          let (r, w2) = write_rows flt filepath d (w1\<lparr>files := (files w1)(filepath \<mapsto> [])\<rparr>);
              w3 = emit (Fclose filepath) w2
          in (case fclose_fault flt of
                Some e \<Rightarrow> (Inl e, w3)
              | None \<Rightarrow> (r, w3)))"

definition insert_sql :: string where
  \<comment> \<open>lines 75-78, the triple-quoted string with its line breaks and indentation\<close>
  "insert_sql =
     [CHR 0x0A] @
     ''                INSERT INTO telemetry_legacy (recorded_at, voltage, temp, source_file)'' @
     [CHR 0x0A] @
     ''                VALUES (%s, %s, %s, %s)'' @
     [CHR 0x0A] @
     ''                ''"

definition execute_args :: "pydict \<Rightarrow> exn + pyval list" where
  \<comment> \<open>line 79, the tuple of the four subscriptions, evaluated before the call\<close>
  "execute_args d =
     (case dict_get d ''recorded_at'' of
        Inl e \<Rightarrow> Inl e
      | Inr a \<Rightarrow>
          (case dict_get d ''voltage'' of
             Inl e \<Rightarrow> Inl e
           | Inr b \<Rightarrow>
               (case dict_get d ''temp'' of
                  Inl e \<Rightarrow> Inl e
                | Inr c \<Rightarrow>
                    (case dict_get d ''source_file'' of
                       Inl e \<Rightarrow> Inl e
                     | Inr s \<Rightarrow> Inr [a, b, c, s]))))"

definition execute_commit :: "faults \<Rightarrow> pydict \<Rightarrow> world \<Rightarrow> (exn + unit) \<times> world" where
  \<comment> \<open>lines 74-81, the body of \<open>with conn.cursor() as cursor\<close>\<close>
  "execute_commit flt d w =
     (case execute_args d of
        Inl e \<Rightarrow> (Inl e, w)
      | Inr args \<Rightarrow>
          let w1 = emit (Execute insert_sql args) w in
          (case execute_fault flt of
             Some e \<Rightarrow> (Inl e, w1)
           | None \<Rightarrow>
               let w2 = emit Commit w1 in
               (case commit_fault flt of
                  Some e \<Rightarrow> (Inl e, w2)
                | None \<Rightarrow> (Inr (), w2))))"

definition inserted_message :: "pydict \<Rightarrow> exn + message" where
  \<comment> \<open>line 84, the f-string of the success message\<close>
  "inserted_message d =
     (case dict_get d ''voltage'' of
        Inl e \<Rightarrow> Inl e
      | Inr b \<Rightarrow>
          (case dict_get d ''temp'' of
             Inl e \<Rightarrow> Inl e
           | Inr c \<Rightarrow> Inr (DataInserted b c)))"

definition insert_row ::
  "faults \<Rightarrow> string \<Rightarrow> string \<Rightarrow> string \<Rightarrow> string \<Rightarrow> string \<Rightarrow> pydict \<Rightarrow> world
     \<Rightarrow> (exn + unit) \<times> world" where
  \<comment> \<open>lines 64-84, the body of the second \<open>try\<close>\<close>
  "insert_row flt pg_host pg_port pg_user pg_password pg_database d w =
     (let w1 = emit (Connect pg_host pg_port pg_user pg_password pg_database) w in
      case connect_fault flt of
        Some e \<Rightarrow> (Inl e, w1)
      | None \<Rightarrow>
          let w2 = emit Cursor w1 in
          (case cursor_fault flt of
             Some e \<Rightarrow> (Inl e, w2)
           | None \<Rightarrow>
               let (r, w3) = execute_commit flt d w2;
                   w4 = emit CursorClose w3
               in (case r of
                     Inl e \<Rightarrow> (Inl e, w4)
                   | Inr _ \<Rightarrow>
                       let w5 = emit ConnClose w4 in
                       (case close_fault flt of
                          Some e \<Rightarrow> (Inl e, w5)
                        | None \<Rightarrow>
                            (case inserted_message d of
                               Inl e \<Rightarrow> (Inl e, w5)
                             | Inr m \<Rightarrow> (Inr (), print Stdout m w5))))))"

definition insert_into_postgresql ::
  "faults \<Rightarrow> string \<Rightarrow> string \<Rightarrow> string \<Rightarrow> string \<Rightarrow> string \<Rightarrow> pydict \<Rightarrow> world
     \<Rightarrow> (exn + unit) \<times> world" where
  \<comment> \<open>lines 63-89: the second \<open>try\<close> with its two handlers\<close>
  "insert_into_postgresql flt pg_host pg_port pg_user pg_password pg_database d w =
     (case insert_row flt pg_host pg_port pg_user pg_password pg_database d w of
        (Inr u, w1) \<Rightarrow> (Inr (), w1)
      | (Inl e, w1) \<Rightarrow>
          if is_psycopg2_Error e then (Inr (), print Stderr (DatabaseError e) w1)
          else if is_Exception e then (Inr (), print Stderr (UnexpectedError e) w1)
          else (Inl e, w1))"

record config =
  csv_out_dir :: string
  pg_host :: string
  pg_port :: string
  pg_user :: string
  pg_password :: string
  pg_database :: string

definition read_config :: "world \<Rightarrow> config \<times> world" where
  \<comment> \<open>lines 32-37, the six local variables\<close>
  "read_config w =
     (let (a, w1) = get_env ''CSV_OUT_DIR'' ''/data/csv'' w;
          (b, w2) = get_env ''PGHOST'' ''db'' w1;
          (c, w3) = get_env ''PGPORT'' ''5432'' w2;
          (d, w4) = get_env ''PGUSER'' ''monouser'' w3;
          (e, w5) = get_env ''PGPASSWORD'' ''monopass'' w4;
          (f, w6) = get_env ''PGDATABASE'' ''monolith'' w5
      in (\<lparr>csv_out_dir = a, pg_host = b, pg_port = c, pg_user = d, pg_password = e,
            pg_database = f\<rparr>, w6))"

definition make_reading :: "string \<Rightarrow> world \<Rightarrow> (string \<times> string \<times> pydict) \<times> world" where
  \<comment> \<open>lines 43-49: \<open>filename\<close>, \<open>filepath\<close> and \<open>data\<close>\<close>
  "make_reading out_dir w =
     (let (t, w1) = datetime_now w;
          timestamp = strftime ''%Y%m%d_%H%M%S'' t;
          filename = ''telemetry_'' @ timestamp @ ''.csv'';
          filepath = os_path_join out_dir filename;
          (d, w2) = generate_csv_row w1
      in ((filename, filepath, dict_set ''source_file'' (PyStr filename) d), w2))"

definition generate_and_insert :: "faults \<Rightarrow> world \<Rightarrow> (exn + unit) \<times> world" where
  "generate_and_insert flt w =
     (let (cfg, w1) = read_config w;
          w2 = emit (Mkdir (csv_out_dir cfg)) w1
      in case mkdir_fault flt of
           Some e \<Rightarrow> (Inl e, w2)
         | None \<Rightarrow>
             let ((filename, filepath, d), w3) = make_reading (csv_out_dir cfg) w2 in
             (case write_csv flt filepath d w3 of
                (Inl e, w4) \<Rightarrow>
                  if is_Exception e then (Inr (), print Stderr (ErrorWritingCsv e) w4)
                  else (Inl e, w4)
              | (Inr u, w4) \<Rightarrow>
                  insert_into_postgresql flt (pg_host cfg) (pg_port cfg) (pg_user cfg)
                    (pg_password cfg) (pg_database cfg) d
                    (print Stdout (CsvCreated filepath) w4)))"

subsection \<open>main\<close>

definition is_space :: "char \<Rightarrow> bool" where
  \<comment> \<open>\<open>Py_ISSPACE\<close>: the whitespace that \<open>int\<close> skips in an ASCII string\<close>
  "is_space c = (c \<in> set [CHR '' '', CHR 0x09, CHR 0x0A, CHR 0x0B, CHR 0x0C, CHR 0x0D])"

definition digit_value :: "char \<Rightarrow> nat option" where
  "digit_value c =
     map_of [(CHR ''0'', 0), (CHR ''1'', 1), (CHR ''2'', 2), (CHR ''3'', 3), (CHR ''4'', 4),
             (CHR ''5'', 5), (CHR ''6'', 6), (CHR ''7'', 7), (CHR ''8'', 8), (CHR ''9'', 9)] c"

text \<open>
  The scan of \<open>PyLong_FromString\<close> over digits and underscores: the value and the number
  of the digits read, the last character read and the rest of the string; \<open>None\<close> for two
  underscores in a row.
\<close>

fun scan_digits :: "nat \<Rightarrow> nat \<Rightarrow> char \<Rightarrow> string \<Rightarrow> (nat \<times> nat \<times> char \<times> string) option" where
  "scan_digits acc n prev [] = Some (acc, n, prev, [])"
| "scan_digits acc n prev (c # cs) =
     (if c = CHR ''_'' then (if prev = CHR ''_'' then None else scan_digits acc n c cs)
      else (case digit_value c of
              None \<Rightarrow> Some (acc, n, prev, c # cs)
            | Some v \<Rightarrow> scan_digits (10 * acc + v) (Suc n) c cs))"

definition invalid_literal :: "string \<Rightarrow> exn" where
  "invalid_literal s =
     ValueError (''invalid literal for int() with base 10: '' @ take 200 (py_repr s))"

definition py_int :: "string \<Rightarrow> exn + int" where
  \<comment> \<open>\<open>int(s)\<close> on a string of ASCII characters, as CPython 3.11 reads it: whitespace, a
      sign, digits with single underscores between them, whitespace; more than 4300
      digits are refused before the rest of the string is looked at\<close>
  "py_int s =
     (let t = dropWhile is_space s;
          (neg, u) = (if t \<noteq> [] \<and> hd t = CHR ''-'' then (True, tl t)
                      else if t \<noteq> [] \<and> hd t = CHR ''+'' then (False, tl t)
                      else (False, t))
      in if u \<noteq> [] \<and> hd u = CHR ''_'' then Inl (invalid_literal s)
         else (case scan_digits 0 0 (CHR 0x00) u of
                 None \<Rightarrow> Inl (invalid_literal s)
               | Some (acc, n, prev, rest) \<Rightarrow>
                   if prev = CHR ''_'' then Inl (invalid_literal s)
                   else if 4300 < n
                   then Inl (ValueError
                          (''Exceeds the limit (4300 digits) for integer string conversion: '' @
                           ''value has '' @ decimal n @
                           '' digits; use sys.set_int_max_str_digits() to increase the limit''))
                   else if n = 0 \<or> dropWhile is_space rest \<noteq> [] then Inl (invalid_literal s)
                   else Inr (if neg then - int acc else int acc)))"

definition time_sleep :: "int \<Rightarrow> faults \<Rightarrow> world \<Rightarrow> (exn + unit) \<times> world" where
  \<comment> \<open>\<open>time.sleep(secs)\<close> with an int, as CPython 3.11 checks it: the nanoseconds must
      fit 64 bits and not be negative; what the call itself then does is an outcome
      of the iteration\<close>
  "time_sleep secs flt w =
     (let w1 = emit (Sleep secs) w in
      if secs * 10 ^ 9 < - (2 ^ 63) \<or> 2 ^ 63 - 1 < secs * 10 ^ 9
      then (Inl (OverflowError ''timestamp too large to convert to C _PyTime_t''), w1)
      else if secs < 0 then (Inl (ValueError ''sleep length must be non-negative''), w1)
      else (case sleep_fault flt of
              Some e \<Rightarrow> (Inl e, w1)
            | None \<Rightarrow> (Inr (), w1)))"

definition loop_body :: "int \<Rightarrow> faults \<Rightarrow> world \<Rightarrow> (exn + unit) \<times> world" where
  \<comment> \<open>lines 100-105, one pass of the body of \<open>while True\<close>\<close>
  "loop_body period_seconds flt w =
     (case generate_and_insert flt w of
        (Inr u, w1) \<Rightarrow> time_sleep period_seconds flt w1
      | (Inl e, w1) \<Rightarrow>
          if is_Exception e
          then time_sleep period_seconds flt (print Stderr (LegacyError e) w1)
          else (Inl e, w1))"

text \<open>
  The loop has no exit of its own. It is run against a schedule, the faults of the first
  \<open>n\<close> iterations: \<open>Running\<close> says that it went through all of them and is about to
  start the next one, \<open>Terminated e\<close> that \<open>e\<close> left the program.
\<close>

datatype status = Running | Terminated exn

fun main_loop :: "int \<Rightarrow> faults list \<Rightarrow> world \<Rightarrow> status \<times> world" where
  "main_loop period_seconds [] w = (Running, w)"
| "main_loop period_seconds (flt # flts) w =
     (case loop_body period_seconds flt w of
        (Inl e, w1) \<Rightarrow> (Terminated e, w1)
      | (Inr u, w1) \<Rightarrow> main_loop period_seconds flts w1)"

definition main :: "faults list \<Rightarrow> world \<Rightarrow> status \<times> world" where
  "main flts w =
     (let (s, w1) = get_env ''GEN_PERIOD_SEC'' ''300'' w in
      case py_int s of
        Inl e \<Rightarrow> (Terminated e, w1)
      | Inr period_seconds \<Rightarrow>
          let w2 = print Stdout (Starting period_seconds) w1;
              (out_dir, w3) = get_env ''CSV_OUT_DIR'' ''/data/csv'' w2;
              w4 = print Stdout (OutputDirectory out_dir) w3;
              (host, w5) = get_env ''PGHOST'' ''db'' w4;
              (port, w6) = get_env ''PGPORT'' ''5432'' w5;
              (database, w7) = get_env ''PGDATABASE'' ''monolith'' w6
          in main_loop period_seconds flts (print Stdout (Database host port database) w7))"

section \<open>Observing one iteration\<close>

text \<open>
  The events a run adds to the trace, and the intermediate values of one call of
  \<open>generate_and_insert\<close> from the world \<open>w\<close>: the configuration it reads, the world after
  the \<open>mkdir\<close> call, the file name, path and dict it builds, the outcome of its CSV
  \<open>with\<close> statement and the outcome of the body of its database \<open>try\<close>.
\<close>

definition new_events :: "world \<Rightarrow> world \<Rightarrow> event list" where
  "new_events w w' = drop (length (trace w)) (trace w')"

fun is_file_event :: "event \<Rightarrow> bool" where
  "is_file_event (Open p) = True"
| "is_file_event (Writeheader p h) = True"
| "is_file_event (Writerow p r) = True"
| "is_file_event (Fclose p) = True"
| "is_file_event _ = False"

fun is_db_event :: "event \<Rightarrow> bool" where
  "is_db_event (Connect a b c d e) = True"
| "is_db_event Cursor = True"
| "is_db_event (Execute q args) = True"
| "is_db_event Commit = True"
| "is_db_event CursorClose = True"
| "is_db_event ConnClose = True"
| "is_db_event _ = False"

fun is_connect :: "event \<Rightarrow> bool" where
  "is_connect (Connect a b c d e) = True"
| "is_connect _ = False"

fun is_print :: "event \<Rightarrow> bool" where
  "is_print (Print s m) = True"
| "is_print _ = False"

fun is_sleep :: "event \<Rightarrow> bool" where
  "is_sleep (Sleep n) = True"
| "is_sleep _ = False"

fun is_now :: "event \<Rightarrow> bool" where
  "is_now (Now t) = True"
| "is_now _ = False"


definition valid_datetime :: "datetime \<Rightarrow> bool" where
  \<comment> \<open>the ranges of the fields of a Python \<open>datetime\<close>\<close>
  "valid_datetime t =
     (1 \<le> year t \<and> year t \<le> 9999 \<and> 1 \<le> month t \<and> month t \<le> 12 \<and>
      1 \<le> day t \<and> day t \<le> 31 \<and> hour t < 24 \<and> minute t < 60 \<and> second t < 60)"


definition period_reads :: "event list \<Rightarrow> nat" where
  \<comment> \<open>how often a run reads \<open>GEN_PERIOD_SEC\<close> from the environment\<close>
  "period_reads evs = count_list evs (Getenv ''GEN_PERIOD_SEC'')"

definition undisturbed :: "faults \<Rightarrow> bool" where
  \<comment> \<open>no call of the iteration raises a \<open>KeyboardInterrupt\<close> or a \<open>SystemExit\<close>, and
      nothing interrupts its sleep\<close>
  "undisturbed flt =
     (list_all (\<lambda>x. case x of None \<Rightarrow> True | Some e \<Rightarrow> is_Exception e)
        [mkdir_fault flt, open_fault flt, writeheader_fault flt, writerow_fault flt,
         fclose_fault flt, connect_fault flt, cursor_fault flt, execute_fault flt,
         commit_fault flt, close_fault flt] \<and>
      sleep_fault flt = None)"

definition config_names :: "string list" where
  "config_names = [''CSV_OUT_DIR'', ''PGHOST'', ''PGPORT'', ''PGUSER'', ''PGPASSWORD'', ''PGDATABASE'']"

definition iter_voltage :: "world \<Rightarrow> pyfloat" where
  "iter_voltage w = py_round (3.2 + (12.6 - 3.2) * draw w (drawn w)) 2"

definition iter_temp :: "world \<Rightarrow> pyfloat" where
  "iter_temp w = py_round (- 50.0 + (80.0 - (- 50.0)) * draw w (Suc (drawn w))) 2"

definition iter_row :: "world \<Rightarrow> pyval list" where
  "iter_row w =
     [PyStr (strftime ''%Y-%m-%d %H:%M:%S'' (clock w (Suc (ticks w)))),
      PyFloat (iter_voltage w), PyFloat (iter_temp w),
      PyStr (''telemetry_'' @ strftime ''%Y%m%d_%H%M%S'' (clock w (ticks w)) @ ''.csv'')]"

definition iter_config :: "world \<Rightarrow> config" where
  "iter_config w = fst (read_config w)"

definition iter_start :: "world \<Rightarrow> world" where
  "iter_start w = emit (Mkdir (csv_out_dir (iter_config w))) (snd (read_config w))"

definition iter_reading :: "world \<Rightarrow> (string \<times> string \<times> pydict) \<times> world" where
  "iter_reading w = make_reading (csv_out_dir (iter_config w)) (iter_start w)"

definition iter_filename :: "world \<Rightarrow> string" where
  "iter_filename w = fst (fst (iter_reading w))"

definition iter_filepath :: "world \<Rightarrow> string" where
  "iter_filepath w = fst (snd (fst (iter_reading w)))"

definition iter_data :: "world \<Rightarrow> pydict" where
  "iter_data w = snd (snd (fst (iter_reading w)))"

definition iter_csv :: "faults \<Rightarrow> world \<Rightarrow> (exn + unit) \<times> world" where
  "iter_csv flt w = write_csv flt (iter_filepath w) (iter_data w) (snd (iter_reading w))"

definition iter_db :: "faults \<Rightarrow> world \<Rightarrow> (exn + unit) \<times> world" where
  "iter_db flt w =
     insert_row flt (pg_host (iter_config w)) (pg_port (iter_config w)) (pg_user (iter_config w))
       (pg_password (iter_config w)) (pg_database (iter_config w)) (iter_data w)
       (print Stdout (CsvCreated (iter_filepath w)) (snd (iter_csv flt w)))"

fun words_from :: "string \<Rightarrow> string \<Rightarrow> string list" where
  "words_from cur [] = (if cur = [] then [] else [cur])"
| "words_from cur (c # cs) =
     (if is_space c then (if cur = [] then words_from [] cs else cur # words_from [] cs)
      else words_from (cur @ [c]) cs)"

definition py_split :: "string \<Rightarrow> string list" where
  \<comment> \<open>\<open>s.split()\<close>: the words of an ASCII string between runs of whitespace\<close>
  "py_split s = words_from [] s"

definition handler_events :: "exn \<Rightarrow> event list" where
  \<comment> \<open>what the two handlers of the database \<open>try\<close> print for an exception\<close>
  "handler_events x =
     (if is_psycopg2_Error x then [Print Stderr (DatabaseError x)]
      else if is_Exception x then [Print Stderr (UnexpectedError x)]
      else [])"

definition main_start :: "int \<Rightarrow> world \<Rightarrow> world" where
  \<comment> \<open>the world in which \<open>main\<close> enters its loop, after the three start-up messages\<close>
  "main_start period_seconds w =
     (let w1 = snd (get_env ''GEN_PERIOD_SEC'' ''300'' w);
          w2 = print Stdout (Starting period_seconds) w1;
          (out_dir, w3) = get_env ''CSV_OUT_DIR'' ''/data/csv'' w2;
          w4 = print Stdout (OutputDirectory out_dir) w3;
          (host, w5) = get_env ''PGHOST'' ''db'' w4;
          (port, w6) = get_env ''PGPORT'' ''5432'' w5;
          (database, w7) = get_env ''PGDATABASE'' ''monolith'' w6
      in print Stdout (Database host port database) w7)"

subsection \<open>A sample world and sample faults\<close>

definition no_faults :: faults where
  "no_faults =
     \<lparr>mkdir_fault = None, open_fault = None, writeheader_fault = None, writerow_fault = None,
      fclose_fault = None, connect_fault = None, cursor_fault = None, execute_fault = None,
      commit_fault = None, close_fault = None, sleep_fault = None\<rparr>"

definition sample_world :: world where
  \<comment> \<open>PGHOST set, the other variables unset; the clock at two seconds before midnight,
      ticking a second per read; the first draw is 1/2, the others are 0\<close>
  "sample_world =
     \<lparr>environ = [''PGHOST'' \<mapsto> ''localhost''],
      clock = (\<lambda>n. \<lparr>year = 2024, month = 3, day = 9, hour = 23, minute = 59,
                       second = 58 + n\<rparr>),
      ticks = 0,
      samples = (\<lambda>n. if n = 0 then 2 ^ 52 else 0),
      drawn = 0,
      files = Map.empty,
      trace = []\<rparr>"

section \<open>Basic facts\<close>

lemma emit_simps:
  "trace (emit ev w) = trace w @ [ev]"
  "files (emit ev w) = files w"
  "environ (emit ev w) = environ w"
  "clock (emit ev w) = clock w"
  "ticks (emit ev w) = ticks w"
  "samples (emit ev w) = samples w"
  "drawn (emit ev w) = drawn w"
  by (simp_all add: emit_def)

lemma print_simps:
  "trace (print s m w) = trace w @ [Print s m]"
  "files (print s m w) = files w"
  "environ (print s m w) = environ w"
  "clock (print s m w) = clock w"
  "ticks (print s m w) = ticks w"
  "samples (print s m w) = samples w"
  "drawn (print s m w) = drawn w"
  by (simp_all add: print_def emit_simps)

lemma draw_simps:
  "draw (emit ev w) i = draw w i"
  "draw (print s m w) i = draw w i"
  "draw (w\<lparr>ticks := t\<rparr>) i = draw w i"
  "draw (w\<lparr>drawn := d\<rparr>) i = draw w i"
  by (simp_all add: draw_def emit_def print_def)

lemma get_env_snd: "snd (get_env name dflt w) = emit (Getenv name) w"
  by (simp add: get_env_def)

lemma read_config_snd:
  "snd (read_config w) =
     emit (Getenv ''PGDATABASE'') (emit (Getenv ''PGPASSWORD'') (emit (Getenv ''PGUSER'')
       (emit (Getenv ''PGPORT'') (emit (Getenv ''PGHOST'') (emit (Getenv ''CSV_OUT_DIR'') w)))))"
  by (simp add: read_config_def get_env_def)

lemma read_config_fst:
  "fst (read_config w) =
     \<lparr>csv_out_dir = fst (get_env ''CSV_OUT_DIR'' ''/data/csv'' w),
      pg_host = fst (get_env ''PGHOST'' ''db'' w),
      pg_port = fst (get_env ''PGPORT'' ''5432'' w),
      pg_user = fst (get_env ''PGUSER'' ''monouser'' w),
      pg_password = fst (get_env ''PGPASSWORD'' ''monopass'' w),
      pg_database = fst (get_env ''PGDATABASE'' ''monolith'' w)\<rparr>"
  by (simp add: read_config_def get_env_def emit_simps)


lemma generate_and_insert_iter:
  "generate_and_insert flt w =
     (case mkdir_fault flt of
        Some e \<Rightarrow> (Inl e, iter_start w)
      | None \<Rightarrow>
          (case fst (iter_csv flt w) of
             Inl e \<Rightarrow>
               if is_Exception e
               then (Inr (), print Stderr (ErrorWritingCsv e) (snd (iter_csv flt w)))
               else (Inl e, snd (iter_csv flt w))
           | Inr u \<Rightarrow>
               (case fst (iter_db flt w) of
                  Inr u \<Rightarrow> (Inr (), snd (iter_db flt w))
                | Inl e \<Rightarrow>
                    if is_psycopg2_Error e
                    then (Inr (), print Stderr (DatabaseError e) (snd (iter_db flt w)))
                    else if is_Exception e
                    then (Inr (), print Stderr (UnexpectedError e) (snd (iter_db flt w)))
                    else (Inl e, snd (iter_db flt w)))))"
  unfolding generate_and_insert_def insert_into_postgresql_def iter_db_def iter_csv_def
    iter_data_def iter_filepath_def iter_reading_def iter_start_def iter_config_def
  by (simp add: Let_def case_prod_unfold split: option.split sum.split)

lemma iter_reading_fst:
  "iter_filename w = ''telemetry_'' @ strftime ''%Y%m%d_%H%M%S'' (clock w (ticks w)) @ ''.csv''"
  "iter_filepath w = os_path_join (csv_out_dir (iter_config w)) (iter_filename w)"
  "iter_data w =
     [(''recorded_at'', PyStr (strftime ''%Y-%m-%d %H:%M:%S'' (clock w (Suc (ticks w))))),
      (''voltage'', PyFloat (iter_voltage w)),
      (''temp'', PyFloat (iter_temp w)),
      (''source_file'', PyStr (iter_filename w))]"
  unfolding iter_data_def iter_filename_def iter_filepath_def iter_reading_def iter_start_def
    make_reading_def generate_csv_row_def datetime_now_def random_uniform_def random_random_def
    iter_voltage_def iter_temp_def
  by (simp_all add: Let_def case_prod_unfold emit_simps draw_simps read_config_snd)


lemma new_events_append: "trace w' = trace w @ evs \<Longrightarrow> new_events w w' = evs"
  by (simp add: new_events_def)

lemma iter_reading_snd:
  "trace (snd (iter_reading w)) =
     trace w @ map Getenv config_names @
       [Mkdir (csv_out_dir (iter_config w)), Now (clock w (ticks w)),
        Now (clock w (Suc (ticks w))), Random (draw w (drawn w)),
        Random (draw w (Suc (drawn w)))]"
  "files (snd (iter_reading w)) = files w"
  unfolding iter_reading_def iter_start_def
    make_reading_def generate_csv_row_def datetime_now_def random_uniform_def random_random_def
  by (simp_all add: Let_def case_prod_unfold emit_simps draw_simps read_config_snd
      config_names_def)

lemma iter_start_simps:
  "trace (iter_start w) = trace w @ map Getenv config_names @ [Mkdir (csv_out_dir (iter_config w))]"
  "files (iter_start w) = files w"
  unfolding iter_start_def by (simp_all add: emit_simps read_config_snd config_names_def)

lemma iter_data_lists:
  "dict_to_list (iter_data w) = Inr (iter_row w)"
  "execute_args (iter_data w) = Inr (iter_row w)"
  "inserted_message (iter_data w) =
     Inr (DataInserted (PyFloat (iter_voltage w)) (PyFloat (iter_temp w)))"
  by (simp_all add: iter_reading_fst dict_to_list_def fieldnames_def execute_args_def
      inserted_message_def dict_get_def iter_row_def)

lemma write_csv_fst:
  "dict_to_list d = Inr r \<Longrightarrow>
   fst (write_csv flt p d w) =
     (case open_fault flt of
        Some e \<Rightarrow> Inl e
      | None \<Rightarrow>
          (case fclose_fault flt of
             Some e \<Rightarrow> Inl e
           | None \<Rightarrow>
               (case writeheader_fault flt of
                  Some e \<Rightarrow> Inl e
                | None \<Rightarrow> (case writerow_fault flt of Some e \<Rightarrow> Inl e | None \<Rightarrow> Inr ()))))"
  by (simp add: write_csv_def write_rows_def Let_def case_prod_unfold split: option.split)

lemma write_csv_trace:
  "dict_to_list d = Inr r \<Longrightarrow>
   trace (snd (write_csv flt p d w)) =
     trace w @ Open p #
       (case open_fault flt of
          Some e \<Rightarrow> []
        | None \<Rightarrow>
            Writeheader p fieldnames #
              (case writeheader_fault flt of Some e \<Rightarrow> [] | None \<Rightarrow> [Writerow p r]) @ [Fclose p])"
  by (simp add: write_csv_def write_rows_def Let_def case_prod_unfold emit_simps append_record_def
      split: option.split)

lemma write_csv_files:
  "dict_to_list d = Inr r \<Longrightarrow> fst (write_csv flt p d w) = Inr () \<Longrightarrow>
   files (snd (write_csv flt p d w)) = (files w)(p \<mapsto> [map PyStr fieldnames, r])"
  by (simp add: write_csv_def write_rows_def Let_def case_prod_unfold emit_simps append_record_def
      split: option.split_asm)

lemma insert_row_files: "files (snd (insert_row flt a b c d e dt w)) = files w"
  by (simp add: insert_row_def execute_commit_def Let_def case_prod_unfold emit_simps print_simps
      split: option.split sum.split)

lemma insert_row_fst:
  "execute_args dt = Inr args \<Longrightarrow> inserted_message dt = Inr m \<Longrightarrow>
   fst (insert_row flt a b c d e dt w) =
     (case connect_fault flt of
        Some x \<Rightarrow> Inl x
      | None \<Rightarrow>
          (case cursor_fault flt of
             Some x \<Rightarrow> Inl x
           | None \<Rightarrow>
               (case execute_fault flt of
                  Some x \<Rightarrow> Inl x
                | None \<Rightarrow>
                    (case commit_fault flt of
                       Some x \<Rightarrow> Inl x
                     | None \<Rightarrow> (case close_fault flt of Some x \<Rightarrow> Inl x | None \<Rightarrow> Inr ())))))"
  by (simp add: insert_row_def execute_commit_def Let_def case_prod_unfold
      split: option.split)

lemma insert_row_trace:
  "execute_args dt = Inr args \<Longrightarrow> inserted_message dt = Inr m \<Longrightarrow>
   trace (snd (insert_row flt a b c d e dt w)) =
     trace w @ Connect a b c d e #
       (case connect_fault flt of
          Some x \<Rightarrow> []
        | None \<Rightarrow>
            Cursor #
              (case cursor_fault flt of
                 Some x \<Rightarrow> []
               | None \<Rightarrow>
                   Execute insert_sql args #
                     (case execute_fault flt of
                        Some x \<Rightarrow> [CursorClose]
                      | None \<Rightarrow>
                          Commit # CursorClose #
                            (case commit_fault flt of
                               Some x \<Rightarrow> []
                             | None \<Rightarrow>
                                 ConnClose #
                                   (case close_fault flt of
                                      Some x \<Rightarrow> []
                                    | None \<Rightarrow> [Print Stdout m])))))"
  by (simp add: insert_row_def execute_commit_def Let_def case_prod_unfold emit_simps print_simps
      split: option.split)

lemma iter_csv_fst:
  "fst (iter_csv flt w) =
     (case open_fault flt of
        Some e \<Rightarrow> Inl e
      | None \<Rightarrow>
          (case fclose_fault flt of
             Some e \<Rightarrow> Inl e
           | None \<Rightarrow>
               (case writeheader_fault flt of
                  Some e \<Rightarrow> Inl e
                | None \<Rightarrow> (case writerow_fault flt of Some e \<Rightarrow> Inl e | None \<Rightarrow> Inr ()))))"
  unfolding iter_csv_def by (rule write_csv_fst [OF iter_data_lists(1)])

lemma iter_csv_trace:
  "trace (snd (iter_csv flt w)) =
     trace w @ map Getenv config_names @
       [Mkdir (csv_out_dir (iter_config w)), Now (clock w (ticks w)),
        Now (clock w (Suc (ticks w))), Random (draw w (drawn w)),
        Random (draw w (Suc (drawn w)))] @
       Open (iter_filepath w) #
         (case open_fault flt of
            Some e \<Rightarrow> []
          | None \<Rightarrow>
              Writeheader (iter_filepath w) fieldnames #
                (case writeheader_fault flt of
                   Some e \<Rightarrow> []
                 | None \<Rightarrow> [Writerow (iter_filepath w) (iter_row w)]) @
                [Fclose (iter_filepath w)])"
  unfolding iter_csv_def
  by (simp add: write_csv_trace [OF iter_data_lists(1)] iter_reading_snd)

lemma iter_csv_files:
  "fst (iter_csv flt w) = Inr () \<Longrightarrow>
   files (snd (iter_csv flt w)) = (files w)(iter_filepath w \<mapsto> [map PyStr fieldnames, iter_row w])"
  unfolding iter_csv_def
  by (simp add: write_csv_files [OF iter_data_lists(1)] iter_reading_snd)

lemma iter_db_fst:
  "fst (iter_db flt w) =
     (case connect_fault flt of
        Some x \<Rightarrow> Inl x
      | None \<Rightarrow>
          (case cursor_fault flt of
             Some x \<Rightarrow> Inl x
           | None \<Rightarrow>
               (case execute_fault flt of
                  Some x \<Rightarrow> Inl x
                | None \<Rightarrow>
                    (case commit_fault flt of
                       Some x \<Rightarrow> Inl x
                     | None \<Rightarrow> (case close_fault flt of Some x \<Rightarrow> Inl x | None \<Rightarrow> Inr ())))))"
  unfolding iter_db_def by (rule insert_row_fst [OF iter_data_lists(2) iter_data_lists(3)])

lemma iter_db_files: "files (snd (iter_db flt w)) = files (snd (iter_csv flt w))"
  unfolding iter_db_def by (simp add: insert_row_files print_simps)

lemma iter_db_trace:
  "trace (snd (iter_db flt w)) =
     trace (snd (iter_csv flt w)) @
       Print Stdout (CsvCreated (iter_filepath w)) #
       Connect (pg_host (iter_config w)) (pg_port (iter_config w)) (pg_user (iter_config w))
         (pg_password (iter_config w)) (pg_database (iter_config w)) #
       (case connect_fault flt of
          Some x \<Rightarrow> []
        | None \<Rightarrow>
            Cursor #
              (case cursor_fault flt of
                 Some x \<Rightarrow> []
               | None \<Rightarrow>
                   Execute insert_sql (iter_row w) #
                     (case execute_fault flt of
                        Some x \<Rightarrow> [CursorClose]
                      | None \<Rightarrow>
                          Commit # CursorClose #
                            (case commit_fault flt of
                               Some x \<Rightarrow> []
                             | None \<Rightarrow>
                                 ConnClose #
                                   (case close_fault flt of
                                      Some x \<Rightarrow> []
                                    | None \<Rightarrow>
                                        [Print Stdout
                                           (DataInserted (PyFloat (iter_voltage w))
                                              (PyFloat (iter_temp w)))])))))"
  unfolding iter_db_def
  by (simp add: insert_row_trace [OF iter_data_lists(2) iter_data_lists(3)] print_simps)

lemma filter_db_getenv: "filter is_db_event (map Getenv ns) = []"
  by (induction ns) simp_all

section \<open>The claims\<close>

text \<open>
  C1. When the CSV write step of an iteration raises an I/O error (here: any exception
  that is an \<open>Exception\<close>), \<open>generate_and_insert\<close> returns without raising, the last
  thing it does is to print the error to the error stream, and the iteration makes no
  database call: no connection is opened and no insert is attempted.
\<close>

theorem csv_write_failure_skips_database:
  assumes "mkdir_fault flt = None" and "fst (iter_csv flt w) = Inl e" and "is_Exception e"
  shows "fst (generate_and_insert flt w) = Inr () \<and>
         last (new_events w (snd (generate_and_insert flt w))) = Print Stderr (ErrorWritingCsv e) \<and>
         filter is_db_event (new_events w (snd (generate_and_insert flt w))) = []"
proof -
  have g: "generate_and_insert flt w =
             (Inr (), print Stderr (ErrorWritingCsv e) (snd (iter_csv flt w)))"
    using assms by (simp add: generate_and_insert_iter)
  have t: "new_events w (snd (generate_and_insert flt w)) =
             drop (length (trace w)) (trace (snd (iter_csv flt w))) @ [Print Stderr (ErrorWritingCsv e)]"
    by (simp add: g new_events_def print_simps iter_csv_trace)
  show ?thesis
    by (simp add: t) (simp add: g iter_csv_trace filter_db_getenv split: option.split)
qed

theorem csv_write_failure_skips_database_witness:
  "fst (generate_and_insert (no_faults\<lparr>open_fault := Some (OSError ''Permission denied'')\<rparr>)
          sample_world) = Inr () \<and>
   last (new_events sample_world
          (snd (generate_and_insert (no_faults\<lparr>open_fault := Some (OSError ''Permission denied'')\<rparr>)
                 sample_world))) = Print Stderr (ErrorWritingCsv (OSError ''Permission denied'')) \<and>
   filter is_db_event
     (new_events sample_world
        (snd (generate_and_insert (no_faults\<lparr>open_fault := Some (OSError ''Permission denied'')\<rparr>)
               sample_world))) = []"
  by (rule csv_write_failure_skips_database)
     (simp_all add: iter_csv_fst no_faults_def)

lemma iter_csv_ok:
  "fst (iter_csv flt w) = Inr () \<longleftrightarrow>
     open_fault flt = None \<and> fclose_fault flt = None \<and> writeheader_fault flt = None \<and>
     writerow_fault flt = None"
  by (simp add: iter_csv_fst split: option.split)

lemma iter_db_ok:
  "fst (iter_db flt w) = Inr () \<longleftrightarrow>
     connect_fault flt = None \<and> cursor_fault flt = None \<and> execute_fault flt = None \<and>
     commit_fault flt = None \<and> close_fault flt = None"
  by (simp add: iter_db_fst split: option.split)

lemma filter_getenv:
  "filter is_db_event (map Getenv ns) = []"
  "filter is_file_event (map Getenv ns) = []"
  "filter is_connect (map Getenv ns) = []"
  "filter is_print (map Getenv ns) = []"
  "filter is_sleep (map Getenv ns) = []"
  by (induction ns) simp_all

lemma time_sleep_trace: "trace (snd (time_sleep p flt w)) = trace w @ [Sleep p]"
  by (simp add: time_sleep_def Let_def emit_simps split: option.split)

lemma time_sleep_files: "files (snd (time_sleep p flt w)) = files w"
  by (simp add: time_sleep_def Let_def emit_simps split: option.split)

lemma time_sleep_ok:
  "0 \<le> p \<Longrightarrow> p \<le> 9223372036 \<Longrightarrow> sleep_fault flt = None \<Longrightarrow>
   time_sleep p flt w = (Inr (), emit (Sleep p) w)"
  by (simp add: time_sleep_def Let_def)

text \<open>
  C10. When the creation of the output directory fails, the exception leaves
  \<open>generate_and_insert\<close>: the call is outside the CSV \<open>try\<close>. The iteration has then
  read its configuration and called \<open>mkdir\<close>, nothing more. The loop's own handler
  prints the only message of the iteration, the one of the generic handler and not the one
  of the CSV-write branch; no file call and no database call is made, and the files are as
  they were.
\<close>

theorem mkdir_failure_escapes:
  assumes "mkdir_fault flt = Some e" and "is_Exception e"
  shows "generate_and_insert flt w = (Inl e, iter_start w) \<and>
         new_events w (iter_start w) =
           map Getenv config_names @ [Mkdir (csv_out_dir (iter_config w))] \<and>
         files (iter_start w) = files w \<and>
         loop_body period flt w =
           time_sleep period flt (print Stderr (LegacyError e) (iter_start w)) \<and>
         filter is_print (new_events w (snd (loop_body period flt w))) =
           [Print Stderr (LegacyError e)] \<and>
         filter is_file_event (new_events w (snd (loop_body period flt w))) = [] \<and>
         filter is_db_event (new_events w (snd (loop_body period flt w))) = [] \<and>
         files (snd (loop_body period flt w)) = files w"
proof -
  have g: "generate_and_insert flt w = (Inl e, iter_start w)"
    using assms by (simp add: generate_and_insert_iter)
  have l: "loop_body period flt w =
             time_sleep period flt (print Stderr (LegacyError e) (iter_start w))"
    using assms by (simp add: loop_body_def g)
  have t: "new_events w (snd (loop_body period flt w)) =
             map Getenv config_names @
               [Mkdir (csv_out_dir (iter_config w)), Print Stderr (LegacyError e), Sleep period]"
    by (rule new_events_append) (simp add: l time_sleep_trace print_simps iter_start_simps)
  have s: "new_events w (iter_start w) =
             map Getenv config_names @ [Mkdir (csv_out_dir (iter_config w))]"
    by (rule new_events_append) (simp add: iter_start_simps)
  have p: "filter is_print (new_events w (snd (loop_body period flt w))) =
             [Print Stderr (LegacyError e)]"
    by (simp add: t filter_getenv)
  have f: "filter is_file_event (new_events w (snd (loop_body period flt w))) = []"
    by (simp add: t filter_getenv)
  have d: "filter is_db_event (new_events w (snd (loop_body period flt w))) = []"
    by (simp add: t filter_getenv)
  have k: "files (snd (loop_body period flt w)) = files w"
    by (simp add: l time_sleep_files print_simps iter_start_simps)
  from g s l p f d k iter_start_simps(2) show ?thesis
    by (intro conjI)
qed

theorem mkdir_failure_escapes_witness:
  "generate_and_insert (no_faults\<lparr>mkdir_fault := Some (OSError ''Read-only file system'')\<rparr>)
     sample_world = (Inl (OSError ''Read-only file system''), iter_start sample_world) \<and>
   new_events sample_world (iter_start sample_world) =
     map Getenv config_names @ [Mkdir (csv_out_dir (iter_config sample_world))] \<and>
   files (iter_start sample_world) = files sample_world \<and>
   loop_body 300 (no_faults\<lparr>mkdir_fault := Some (OSError ''Read-only file system'')\<rparr>)
     sample_world =
     time_sleep 300 (no_faults\<lparr>mkdir_fault := Some (OSError ''Read-only file system'')\<rparr>)
       (print Stderr (LegacyError (OSError ''Read-only file system'')) (iter_start sample_world)) \<and>
   filter is_print
     (new_events sample_world
        (snd (loop_body 300 (no_faults\<lparr>mkdir_fault := Some (OSError ''Read-only file system'')\<rparr>)
               sample_world))) = [Print Stderr (LegacyError (OSError ''Read-only file system''))] \<and>
   filter is_file_event
     (new_events sample_world
        (snd (loop_body 300 (no_faults\<lparr>mkdir_fault := Some (OSError ''Read-only file system'')\<rparr>)
               sample_world))) = [] \<and>
   filter is_db_event
     (new_events sample_world
        (snd (loop_body 300 (no_faults\<lparr>mkdir_fault := Some (OSError ''Read-only file system'')\<rparr>)
               sample_world))) = [] \<and>
   files (snd (loop_body 300 (no_faults\<lparr>mkdir_fault := Some (OSError ''Read-only file system'')\<rparr>)
                 sample_world)) = files sample_world"
  by (rule mkdir_failure_escapes) (simp_all add: no_faults_def)

lemma psycopg2_is_Exception: "is_psycopg2_Error e \<Longrightarrow> is_Exception e"
  by (cases e) simp_all

lemma generate_and_insert_events:
  assumes "mkdir_fault flt = None" and "fst (iter_csv flt w) = Inr ()"
  shows "new_events w (snd (generate_and_insert flt w)) =
     map Getenv config_names @
     [Mkdir (csv_out_dir (iter_config w)), Now (clock w (ticks w)),
      Now (clock w (Suc (ticks w))), Random (draw w (drawn w)),
      Random (draw w (Suc (drawn w))),
      Open (iter_filepath w), Writeheader (iter_filepath w) fieldnames,
      Writerow (iter_filepath w) (iter_row w), Fclose (iter_filepath w),
      Print Stdout (CsvCreated (iter_filepath w))] @
     Connect (pg_host (iter_config w)) (pg_port (iter_config w)) (pg_user (iter_config w))
       (pg_password (iter_config w)) (pg_database (iter_config w)) #
     (case connect_fault flt of
        Some x \<Rightarrow> handler_events x
      | None \<Rightarrow>
          Cursor #
            (case cursor_fault flt of
               Some x \<Rightarrow> handler_events x
             | None \<Rightarrow>
                 Execute insert_sql (iter_row w) #
                   (case execute_fault flt of
                      Some x \<Rightarrow> CursorClose # handler_events x
                    | None \<Rightarrow>
                        Commit # CursorClose #
                          (case commit_fault flt of
                             Some x \<Rightarrow> handler_events x
                           | None \<Rightarrow>
                               ConnClose #
                                 (case close_fault flt of
                                    Some x \<Rightarrow> handler_events x
                                  | None \<Rightarrow>
                                      [Print Stdout
                                         (DataInserted (PyFloat (iter_voltage w))
                                            (PyFloat (iter_temp w)))])))))"
proof -
  have c: "open_fault flt = None" "fclose_fault flt = None" "writeheader_fault flt = None"
    "writerow_fault flt = None"
    using assms(2) by (simp_all add: iter_csv_ok)
  show ?thesis
    by (rule new_events_append)
       (simp add: generate_and_insert_iter assms iter_db_fst iter_db_trace iter_csv_trace c
          print_simps handler_events_def split: option.split)
qed

lemma generate_and_insert_result:
  assumes "mkdir_fault flt = None" and "fst (iter_csv flt w) = Inr ()"
  shows "fst (generate_and_insert flt w) =
     (case fst (iter_db flt w) of
        Inr u \<Rightarrow> Inr ()
      | Inl e \<Rightarrow> if is_Exception e then Inr () else Inl e)"
  using assms by (auto simp add: generate_and_insert_iter psycopg2_is_Exception split: sum.split)

lemma generate_and_insert_files:
  assumes "mkdir_fault flt = None" and "fst (iter_csv flt w) = Inr ()"
  shows "files (snd (generate_and_insert flt w)) = files (snd (iter_csv flt w))"
  using assms by (simp add: generate_and_insert_iter iter_db_files print_simps split: sum.split)

lemma handler_events_no_db:
  "filter is_db_event (handler_events x) = []"
  "ConnClose \<notin> set (handler_events x)"
  by (simp_all add: handler_events_def)

text \<open>
  C8. \<open>conn.close()\<close> is called on the success path only: the iteration calls it exactly
  when the directory was made, the CSV file written, and connect, cursor, execute and
  commit all succeeded. In particular, when the connection has been opened and the insert
  or the commit raises, the iteration ends with that call, the closing of the cursor and
  the error message on the error stream; the connection is not closed, and
  \<open>generate_and_insert\<close> returns.
\<close>

theorem connection_closed_only_on_success:
  "(ConnClose \<in> set (new_events w (snd (generate_and_insert flt w)))) =
     (mkdir_fault flt = None \<and> fst (iter_csv flt w) = Inr () \<and> connect_fault flt = None \<and>
      cursor_fault flt = None \<and> execute_fault flt = None \<and> commit_fault flt = None) \<and>
   (mkdir_fault flt = None \<and> fst (iter_csv flt w) = Inr () \<and> connect_fault flt = None \<and>
    cursor_fault flt = None \<and>
    (execute_fault flt = Some e \<or> execute_fault flt = None \<and> commit_fault flt = Some e) \<and>
    is_Exception e \<longrightarrow>
      fst (generate_and_insert flt w) = Inr () \<and>
      ConnClose \<notin> set (new_events w (snd (generate_and_insert flt w))) \<and>
      take 3 (rev (new_events w (snd (generate_and_insert flt w)))) =
        (if is_psycopg2_Error e then [Print Stderr (DatabaseError e), CursorClose]
         else [Print Stderr (UnexpectedError e), CursorClose]) @
        (if execute_fault flt = None then [Commit] else [Execute insert_sql (iter_row w)]))"
proof -
  have getenv: "ConnClose \<notin> set (map Getenv ns)" for ns
    by (induction ns) simp_all
  have a: "(ConnClose \<in> set (new_events w (snd (generate_and_insert flt w)))) =
     (mkdir_fault flt = None \<and> fst (iter_csv flt w) = Inr () \<and> connect_fault flt = None \<and>
      cursor_fault flt = None \<and> execute_fault flt = None \<and> commit_fault flt = None)"
  proof (cases "mkdir_fault flt")
    case (Some x)
    have "new_events w (snd (generate_and_insert flt w)) =
            map Getenv config_names @ [Mkdir (csv_out_dir (iter_config w))]"
      by (rule new_events_append) (simp add: generate_and_insert_iter Some iter_start_simps)
    then show ?thesis using Some getenv by simp
  next
    case None
    show ?thesis
    proof (cases "fst (iter_csv flt w)")
      case (Inr u)
      then have ok: "fst (iter_csv flt w) = Inr ()" by simp
      show ?thesis
        using getenv
        by (simp add: generate_and_insert_events [OF None ok] ok None handler_events_def
            split: option.split)
    next
      case (Inl x)
      have "\<exists>tl. new_events w (snd (generate_and_insert flt w)) =
              drop (length (trace w)) (trace (snd (iter_csv flt w))) @ tl \<and> ConnClose \<notin> set tl"
        by (simp add: generate_and_insert_iter None Inl new_events_def print_simps iter_csv_trace)
      then show ?thesis
        using getenv by (auto simp add: Inl iter_csv_trace split: option.split)
    qed
  qed
  have b: "fst (generate_and_insert flt w) = Inr () \<and>
      ConnClose \<notin> set (new_events w (snd (generate_and_insert flt w))) \<and>
      take 3 (rev (new_events w (snd (generate_and_insert flt w)))) =
        (if is_psycopg2_Error e then [Print Stderr (DatabaseError e), CursorClose]
         else [Print Stderr (UnexpectedError e), CursorClose]) @
        (if execute_fault flt = None then [Commit] else [Execute insert_sql (iter_row w)])"
    if h: "mkdir_fault flt = None \<and> fst (iter_csv flt w) = Inr () \<and> connect_fault flt = None \<and>
    cursor_fault flt = None \<and>
    (execute_fault flt = Some e \<or> execute_fault flt = None \<and> commit_fault flt = Some e) \<and>
    is_Exception e"
  proof -
    from h have m: "mkdir_fault flt = None" and c: "fst (iter_csv flt w) = Inr ()" by simp_all
    from h have r: "fst (generate_and_insert flt w) = Inr ()"
      by (auto simp add: generate_and_insert_result [OF m c] iter_db_fst)
    from h a have n: "ConnClose \<notin> set (new_events w (snd (generate_and_insert flt w)))"
      by auto
    from h have t: "take 3 (rev (new_events w (snd (generate_and_insert flt w)))) =
        (if is_psycopg2_Error e then [Print Stderr (DatabaseError e), CursorClose]
         else [Print Stderr (UnexpectedError e), CursorClose]) @
        (if execute_fault flt = None then [Commit] else [Execute insert_sql (iter_row w)])"
      by (auto simp add: generate_and_insert_events [OF m c] handler_events_def)
    from r n t show ?thesis by blast
  qed
  from a b show ?thesis by blast
qed

theorem connection_closed_only_on_success_witness:
  "fst (generate_and_insert (no_faults\<lparr>commit_fault := Some (Psycopg2Error ''connection lost'')\<rparr>)
          sample_world) = Inr () \<and>
   ConnClose \<notin> set (new_events sample_world
     (snd (generate_and_insert (no_faults\<lparr>commit_fault := Some (Psycopg2Error ''connection lost'')\<rparr>)
            sample_world))) \<and>
   take 3 (rev (new_events sample_world
     (snd (generate_and_insert (no_faults\<lparr>commit_fault := Some (Psycopg2Error ''connection lost'')\<rparr>)
            sample_world)))) =
     [Print Stderr (DatabaseError (Psycopg2Error ''connection lost'')), CursorClose, Commit]"
  using connection_closed_only_on_success
    [of sample_world "no_faults\<lparr>commit_fault := Some (Psycopg2Error ''connection lost'')\<rparr>"
        "Psycopg2Error ''connection lost''"]
  by (simp add: no_faults_def iter_csv_ok)

lemma new_events_print_db:
  "new_events w (print s m (snd (iter_db flt w))) = new_events w (snd (iter_db flt w)) @ [Print s m]"
  by (simp add: new_events_def print_simps iter_db_trace iter_csv_trace)

text \<open>
  C2. When the CSV write of an iteration succeeds and the database step raises (at
  connect, cursor, execute, commit or close), the exception does not leave
  \<open>generate_and_insert\<close>; the last thing the iteration does is to print the error to the
  error stream (the database handler for a \<open>psycopg2.Error\<close>, the generic one otherwise);
  the files are as the CSV step left them, so the file of this iteration still holds its
  header and its row; and the loop goes on to sleep and then runs the next iteration.
\<close>

theorem database_failure_keeps_csv:
  assumes "mkdir_fault flt = None" and "fst (iter_csv flt w) = Inr ()"
    and "fst (iter_db flt w) = Inl e" and "is_Exception e"
  shows "fst (generate_and_insert flt w) = Inr () \<and>
         files (snd (generate_and_insert flt w)) = files (snd (iter_csv flt w)) \<and>
         files (snd (generate_and_insert flt w)) (iter_filepath w) =
           Some [map PyStr fieldnames, iter_row w] \<and>
         last (new_events w (snd (generate_and_insert flt w))) =
           Print Stderr (if is_psycopg2_Error e then DatabaseError e else UnexpectedError e) \<and>
         (0 \<le> period \<and> period \<le> 9223372036 \<and> sleep_fault flt = None \<longrightarrow>
            loop_body period flt w =
              (Inr (), emit (Sleep period) (snd (generate_and_insert flt w))) \<and>
            main_loop period (flt # flts) w =
              main_loop period flts (emit (Sleep period) (snd (generate_and_insert flt w))) \<and>
            files (emit (Sleep period) (snd (generate_and_insert flt w))) (iter_filepath w) =
              Some [map PyStr fieldnames, iter_row w])"
proof -
  have r: "fst (generate_and_insert flt w) = Inr ()"
    using assms by (simp add: generate_and_insert_result)
  have f: "files (snd (generate_and_insert flt w)) = files (snd (iter_csv flt w))"
    using assms by (simp add: generate_and_insert_files)
  have c: "files (snd (generate_and_insert flt w)) (iter_filepath w) =
           Some [map PyStr fieldnames, iter_row w]"
    using assms by (simp add: f iter_csv_files)
  have g: "generate_and_insert flt w =
             (Inr (), print Stderr (if is_psycopg2_Error e then DatabaseError e else UnexpectedError e)
                        (snd (iter_db flt w)))"
    using assms by (simp add: generate_and_insert_iter)
  have l: "last (new_events w (snd (generate_and_insert flt w))) =
           Print Stderr (if is_psycopg2_Error e then DatabaseError e else UnexpectedError e)"
    by (simp add: g new_events_print_db)
  have s: "loop_body period flt w =
              (Inr (), emit (Sleep period) (snd (generate_and_insert flt w))) \<and>
            main_loop period (flt # flts) w =
              main_loop period flts (emit (Sleep period) (snd (generate_and_insert flt w))) \<and>
            files (emit (Sleep period) (snd (generate_and_insert flt w))) (iter_filepath w) =
              Some [map PyStr fieldnames, iter_row w]"
    if h: "0 \<le> period \<and> period \<le> 9223372036 \<and> sleep_fault flt = None"
  proof -
    have b: "loop_body period flt w =
               (Inr (), emit (Sleep period) (snd (generate_and_insert flt w)))"
      using h r by (simp add: loop_body_def time_sleep_ok case_prod_unfold)
    have m: "main_loop period (flt # flts) w =
               main_loop period flts (emit (Sleep period) (snd (generate_and_insert flt w)))"
      by (simp add: b)
    from b m c show ?thesis by (simp add: emit_simps)
  qed
  from r f c l s show ?thesis by blast
qed

theorem database_failure_keeps_csv_witness:
  "fst (generate_and_insert (no_faults\<lparr>connect_fault := Some (Psycopg2Error ''could not connect'')\<rparr>)
          sample_world) = Inr () \<and>
   files (snd (generate_and_insert
                 (no_faults\<lparr>connect_fault := Some (Psycopg2Error ''could not connect'')\<rparr>)
                 sample_world)) (iter_filepath sample_world) =
     Some [map PyStr fieldnames, iter_row sample_world] \<and>
   last (new_events sample_world
           (snd (generate_and_insert
                   (no_faults\<lparr>connect_fault := Some (Psycopg2Error ''could not connect'')\<rparr>)
                   sample_world))) =
     Print Stderr (DatabaseError (Psycopg2Error ''could not connect'')) \<and>
   main_loop 300 [no_faults\<lparr>connect_fault := Some (Psycopg2Error ''could not connect'')\<rparr>,
                  no_faults] sample_world =
     main_loop 300 [no_faults]
       (emit (Sleep 300)
          (snd (generate_and_insert
                  (no_faults\<lparr>connect_fault := Some (Psycopg2Error ''could not connect'')\<rparr>)
                  sample_world)))"
proof -
  let ?f = "no_faults\<lparr>connect_fault := Some (Psycopg2Error ''could not connect'')\<rparr>"
  have m: "mkdir_fault ?f = None"
    by (simp add: no_faults_def)
  have c: "fst (iter_csv ?f sample_world) = Inr ()"
    by (simp add: iter_csv_ok no_faults_def)
  have d: "fst (iter_db ?f sample_world) = Inl (Psycopg2Error ''could not connect'')"
    by (simp add: iter_db_fst no_faults_def)
  have e: "is_Exception (Psycopg2Error ''could not connect'')"
    by simp
  have s: "(0::int) \<le> 300 \<and> (300::int) \<le> 9223372036 \<and> sleep_fault ?f = None"
    by (simp add: no_faults_def)
  note t = database_failure_keeps_csv [OF m c d e, of 300 "[no_faults]"]
  note t1 = t [THEN conjunct1]
  note t3 = t [THEN conjunct2, THEN conjunct2, THEN conjunct1]
  note t4 = t [THEN conjunct2, THEN conjunct2, THEN conjunct2, THEN conjunct1, simplified]
  note t5 = t [THEN conjunct2, THEN conjunct2, THEN conjunct2, THEN conjunct2, THEN mp, OF s]
  note t6 = t5 [THEN conjunct2, THEN conjunct1]
  from t1 t3 t4 t6 show ?thesis
    by (intro conjI)
qed

lemma digit_0: "digit 0 = CHR ''0''"
  by (simp add: digit_def)


lemma digit_small: "n < 10 \<Longrightarrow> digit (n div 10) = CHR ''0''"
  by (simp add: digit_0)

lemma zfill2_decimal:
  assumes "n < 100"
  shows "zfill 2 (decimal n) = [digit (n div 10), digit n]"
proof (cases "n < 10")
  case True
  then show ?thesis
    by (simp add: decimal.simps [of n] zfill_def digit_0)
next
  case False
  with assms have "n div 10 < 10" by simp
  with False show ?thesis
    by (simp add: decimal.simps [of n] decimal.simps [of "n div 10"] zfill_def)
qed











lemma generate_and_insert_events_mkdir_failed:
  assumes "mkdir_fault flt = Some e"
  shows "new_events w (snd (generate_and_insert flt w)) =
           map Getenv config_names @ [Mkdir (csv_out_dir (iter_config w))]"
  by (rule new_events_append) (simp add: generate_and_insert_iter assms iter_start_simps)

lemma generate_and_insert_events_csv_failed:
  assumes "mkdir_fault flt = None" and "fst (iter_csv flt w) = Inl e"
  shows "new_events w (snd (generate_and_insert flt w)) =
     map Getenv config_names @
     [Mkdir (csv_out_dir (iter_config w)), Now (clock w (ticks w)),
      Now (clock w (Suc (ticks w))), Random (draw w (drawn w)),
      Random (draw w (Suc (drawn w)))] @
     Open (iter_filepath w) #
       (case open_fault flt of
          Some x \<Rightarrow> []
        | None \<Rightarrow>
            Writeheader (iter_filepath w) fieldnames #
              (case writeheader_fault flt of
                 Some x \<Rightarrow> []
               | None \<Rightarrow> [Writerow (iter_filepath w) (iter_row w)]) @
              [Fclose (iter_filepath w)]) @
     (if is_Exception e then [Print Stderr (ErrorWritingCsv e)] else [])"
  by (rule new_events_append)
     (simp add: generate_and_insert_iter assms iter_csv_trace print_simps)

lemma trace_generate_and_insert:
  "trace (snd (generate_and_insert flt w)) = trace w @ new_events w (snd (generate_and_insert flt w))"
proof -
  have "\<exists>evs. trace (snd (generate_and_insert flt w)) = trace w @ evs"
    by (simp add: generate_and_insert_iter iter_start_simps iter_csv_trace iter_db_trace
        print_simps split: option.split sum.split)
  then show ?thesis
    by (auto simp add: new_events_def)
qed

lemma filter_handler:
  "filter is_now (handler_events x) = []"
  "filter is_sleep (handler_events x) = []"
  "period_reads (handler_events x) = 0"
  by (simp_all add: handler_events_def period_reads_def)

lemma filter_now_getenv: "filter is_now (map Getenv ns) = []"
  by (induction ns) simp_all

lemma period_reads_append: "period_reads (xs @ ys) = period_reads xs + period_reads ys"
  by (induction xs) (simp_all add: period_reads_def)

lemma period_reads_config: "period_reads (map Getenv config_names) = 0"
  by (simp add: period_reads_def config_names_def)

lemma generate_and_insert_now:
  "filter is_now (new_events w (snd (generate_and_insert flt w))) =
     (if mkdir_fault flt = None
      then [Now (clock w (ticks w)), Now (clock w (Suc (ticks w)))] else [])"
proof (cases "mkdir_fault flt")
  case (Some x)
  then show ?thesis
    by (simp add: generate_and_insert_events_mkdir_failed filter_now_getenv)
next
  case None
  show ?thesis
  proof (cases "fst (iter_csv flt w)")
    case (Inl e)
    show ?thesis
      by (simp add: generate_and_insert_events_csv_failed [OF None Inl] filter_now_getenv None
          split: option.split)
  next
    case (Inr u)
    then have ok: "fst (iter_csv flt w) = Inr ()" by simp
    show ?thesis
      by (simp add: generate_and_insert_events [OF None ok] filter_now_getenv None filter_handler
          split: option.split)
  qed
qed

lemma generate_and_insert_quiet:
  "filter is_sleep (new_events w (snd (generate_and_insert flt w))) = [] \<and>
   period_reads (new_events w (snd (generate_and_insert flt w))) = 0 \<and>
   take 6 (new_events w (snd (generate_and_insert flt w))) = map Getenv config_names"
proof (cases "mkdir_fault flt")
  case (Some x)
  then show ?thesis
    by (simp add: generate_and_insert_events_mkdir_failed filter_getenv period_reads_append
        period_reads_config) (simp add: config_names_def period_reads_def)
next
  case None
  show ?thesis
  proof (cases "fst (iter_csv flt w)")
    case (Inl e)
    show ?thesis
      by (simp add: generate_and_insert_events_csv_failed [OF None Inl] filter_getenv
          period_reads_append period_reads_config split: option.split)
         (simp add: config_names_def period_reads_def)
  next
    case (Inr u)
    then have ok: "fst (iter_csv flt w) = Inr ()" by simp
    show ?thesis
      by (simp add: generate_and_insert_events [OF None ok] filter_getenv filter_handler
          period_reads_append period_reads_config split: option.split)
         (simp add: config_names_def period_reads_def filter_handler [unfolded period_reads_def]
          split: option.split)
  qed
qed

lemma sample_clock:
  "clock sample_world (ticks sample_world) =
     \<lparr>year = 2024, month = 3, day = 9, hour = 23, minute = 59, second = 58\<rparr>"
  "clock sample_world (Suc (ticks sample_world)) =
     \<lparr>year = 2024, month = 3, day = 9, hour = 23, minute = 59, second = 59\<rparr>"
  by (simp_all add: sample_world_def)

lemma sample_stamps:
  "strftime ''%Y%m%d_%H%M%S''
     \<lparr>year = 2024, month = 3, day = 9, hour = 23, minute = 59, second = 58\<rparr> =
     ''20240309_235958''"
  "strftime ''%Y-%m-%d %H:%M:%S''
     \<lparr>year = 2024, month = 3, day = 9, hour = 23, minute = 59, second = 59\<rparr> =
     ''2024-03-09 23:59:59''"
  by code_simp+

text \<open>
  C9. An iteration that gets past \<open>mkdir\<close> reads the clock exactly twice. The file name
  carries the first reading and the field recorded\_at the second one, so the two need not
  show the same second: in the sample world the file is named for 23:59:58 and the
  reading is recorded at 23:59:59.
\<close>

theorem two_clock_reads:
  "filter is_now (new_events w (snd (generate_and_insert flt w))) =
     (if mkdir_fault flt = None
      then [Now (clock w (ticks w)), Now (clock w (Suc (ticks w)))] else []) \<and>
   iter_filename w =
     ''telemetry_'' @ strftime ''%Y%m%d_%H%M%S'' (clock w (ticks w)) @ ''.csv'' \<and>
   dict_get (iter_data w) ''recorded_at'' =
     Inr (PyStr (strftime ''%Y-%m-%d %H:%M:%S'' (clock w (Suc (ticks w))))) \<and>
   (\<exists>w0. valid_datetime (clock w0 (ticks w0)) \<and> valid_datetime (clock w0 (Suc (ticks w0))) \<and>
      iter_filename w0 = ''telemetry_20240309_235958.csv'' \<and>
      dict_get (iter_data w0) ''recorded_at'' = Inr (PyStr ''2024-03-09 23:59:59''))"
proof -
  have a: "dict_get (iter_data w) ''recorded_at'' =
     Inr (PyStr (strftime ''%Y-%m-%d %H:%M:%S'' (clock w (Suc (ticks w)))))" for w
    by (simp add: iter_reading_fst(3) dict_get_def)
  have v: "valid_datetime (clock sample_world (ticks sample_world)) \<and>
           valid_datetime (clock sample_world (Suc (ticks sample_world)))"
    by (simp add: sample_clock valid_datetime_def)
  have n: "iter_filename sample_world = ''telemetry_20240309_235958.csv''"
    unfolding iter_reading_fst(1) sample_clock sample_stamps by simp
  have r: "dict_get (iter_data sample_world) ''recorded_at'' = Inr (PyStr ''2024-03-09 23:59:59'')"
    unfolding a sample_clock sample_stamps by simp
  from v n r have e: "\<exists>w0. valid_datetime (clock w0 (ticks w0)) \<and>
      valid_datetime (clock w0 (Suc (ticks w0))) \<and>
      iter_filename w0 = ''telemetry_20240309_235958.csv'' \<and>
      dict_get (iter_data w0) ''recorded_at'' = Inr (PyStr ''2024-03-09 23:59:59'')"
    by blast
  from generate_and_insert_now [of w flt] iter_reading_fst(1) [of w] a [of w] e show ?thesis
    by (intro conjI)
qed

theorem two_clock_reads_witness:
  "filter is_now (new_events sample_world (snd (generate_and_insert no_faults sample_world))) =
     [Now \<lparr>year = 2024, month = 3, day = 9, hour = 23, minute = 59, second = 58\<rparr>,
      Now \<lparr>year = 2024, month = 3, day = 9, hour = 23, minute = 59, second = 59\<rparr>] \<and>
   iter_filename sample_world = ''telemetry_20240309_235958.csv'' \<and>
   dict_get (iter_data sample_world) ''recorded_at'' = Inr (PyStr ''2024-03-09 23:59:59'')"
proof -
  note t = two_clock_reads [of sample_world no_faults]
  have m: "mkdir_fault no_faults = None"
    by (simp add: no_faults_def)
  have a: "filter is_now (new_events sample_world (snd (generate_and_insert no_faults sample_world))) =
     [Now \<lparr>year = 2024, month = 3, day = 9, hour = 23, minute = 59, second = 58\<rparr>,
      Now \<lparr>year = 2024, month = 3, day = 9, hour = 23, minute = 59, second = 59\<rparr>]"
    using t [THEN conjunct1] by (simp add: m sample_clock)
  have b: "iter_filename sample_world = ''telemetry_20240309_235958.csv''"
    using t [THEN conjunct2, THEN conjunct1] unfolding sample_clock sample_stamps by simp
  have c: "dict_get (iter_data sample_world) ''recorded_at'' = Inr (PyStr ''2024-03-09 23:59:59'')"
    using t [THEN conjunct2, THEN conjunct2, THEN conjunct1]
    unfolding sample_clock sample_stamps by simp
  from a b c show ?thesis
    by (intro conjI)
qed

lemma new_events_trans:
  "trace w' = trace w @ a \<Longrightarrow> trace w'' = trace w' @ b \<Longrightarrow> new_events w w'' = a @ b"
  by (simp add: new_events_def)

lemma loop_body_events:
  "new_events w (snd (loop_body p flt w)) =
     new_events w (snd (generate_and_insert flt w)) @
     (case fst (generate_and_insert flt w) of
        Inr u \<Rightarrow> [Sleep p]
      | Inl e \<Rightarrow> if is_Exception e then [Print Stderr (LegacyError e), Sleep p] else [])"
proof (cases "generate_and_insert flt w")
  case (Pair r w1)
  then have t: "trace w1 = trace w @ new_events w w1"
    using trace_generate_and_insert [of flt w] by simp
  show ?thesis
  proof (cases r)
    case (Inr u)
    have "trace (snd (loop_body p flt w)) = trace w1 @ [Sleep p]"
      by (simp add: loop_body_def Pair Inr time_sleep_trace)
    from new_events_trans [OF t this] show ?thesis
      by (simp add: Pair Inr)
  next
    case (Inl e)
    show ?thesis
    proof (cases "is_Exception e")
      case True
      have "trace (snd (loop_body p flt w)) = trace w1 @ [Print Stderr (LegacyError e), Sleep p]"
        by (simp add: loop_body_def Pair Inl True time_sleep_trace print_simps)
      from new_events_trans [OF t this] show ?thesis
        by (simp add: Pair Inl True)
    next
      case False
      then show ?thesis
        by (simp add: loop_body_def Pair Inl)
    qed
  qed
qed

lemma trace_loop_body:
  "trace (snd (loop_body p flt w)) = trace w @ new_events w (snd (loop_body p flt w))"
proof -
  have "\<exists>evs. trace (snd (loop_body p flt w)) = trace (snd (generate_and_insert flt w)) @ evs"
    by (simp add: loop_body_def case_prod_unfold time_sleep_trace print_simps split: sum.split)
  then obtain evs where
    "trace (snd (loop_body p flt w)) = trace w @ new_events w (snd (generate_and_insert flt w)) @ evs"
    using trace_generate_and_insert [of flt w] by auto
  then show ?thesis
    by (simp add: new_events_def)
qed

lemma undisturbed_faults:
  assumes "undisturbed flt"
    and "Some e \<in> {mkdir_fault flt, open_fault flt, writeheader_fault flt, writerow_fault flt,
           fclose_fault flt, connect_fault flt, cursor_fault flt, execute_fault flt,
           commit_fault flt, close_fault flt}"
  shows "is_Exception e"
proof -
  from assms(1) have "\<forall>x \<in> {mkdir_fault flt, open_fault flt, writeheader_fault flt,
      writerow_fault flt, fclose_fault flt, connect_fault flt, cursor_fault flt,
      execute_fault flt, commit_fault flt, close_fault flt}.
      case x of None \<Rightarrow> True | Some e \<Rightarrow> is_Exception e"
    by (simp add: undisturbed_def)
  with assms(2) have "case Some e of None \<Rightarrow> True | Some e \<Rightarrow> is_Exception e"
    by blast
  then show ?thesis by simp
qed

lemma iter_csv_raises:
  "fst (iter_csv flt w) = Inl e \<Longrightarrow>
   Some e \<in> {open_fault flt, fclose_fault flt, writeheader_fault flt, writerow_fault flt}"
  by (simp add: iter_csv_fst split: option.split_asm)

lemma iter_db_raises:
  "fst (iter_db flt w) = Inl e \<Longrightarrow>
   Some e \<in> {connect_fault flt, cursor_fault flt, execute_fault flt, commit_fault flt,
              close_fault flt}"
  by (simp add: iter_db_fst split: option.split_asm)

lemma undisturbed_result:
  assumes "undisturbed flt"
  shows "fst (generate_and_insert flt w) = Inr () \<or>
         (\<exists>e. fst (generate_and_insert flt w) = Inl e \<and> is_Exception e)"
proof (cases "mkdir_fault flt")
  case (Some e)
  then have "is_Exception e"
    using undisturbed_faults [OF assms, of e] by simp
  then show ?thesis
    by (simp add: generate_and_insert_iter Some)
next
  case None
  show ?thesis
  proof (cases "fst (iter_csv flt w)")
    case (Inl e)
    from iter_csv_raises [OF Inl] have "is_Exception e"
      using undisturbed_faults [OF assms, of e] by auto
    then show ?thesis
      by (simp add: generate_and_insert_iter None Inl)
  next
    case (Inr u)
    then have ok: "fst (iter_csv flt w) = Inr ()" by simp
    show ?thesis
    proof (cases "fst (iter_db flt w)")
      case (Inl e)
      from iter_db_raises [OF Inl] have "is_Exception e"
        using undisturbed_faults [OF assms, of e] by auto
      then show ?thesis
        by (simp add: generate_and_insert_result [OF None ok] Inl)
    next
      case (Inr u)
      then show ?thesis
        by (simp add: generate_and_insert_result [OF None ok])
    qed
  qed
qed

lemma loop_body_undisturbed:
  assumes "undisturbed flt" and "0 \<le> p" and "p \<le> 9223372036"
  shows "fst (loop_body p flt w) = Inr () \<and>
         filter is_sleep (new_events w (snd (loop_body p flt w))) = [Sleep p]"
proof -
  from assms(1) have s: "sleep_fault flt = None"
    by (simp add: undisturbed_def)
  note q = generate_and_insert_quiet [of w flt, THEN conjunct1]
  from undisturbed_result [OF assms(1), of w] show ?thesis
  proof
    assume r: "fst (generate_and_insert flt w) = Inr ()"
    have "fst (loop_body p flt w) = Inr ()"
      using r assms(2,3) s by (simp add: loop_body_def case_prod_unfold time_sleep_ok)
    then show ?thesis
      by (simp add: loop_body_events q r)
  next
    assume "\<exists>e. fst (generate_and_insert flt w) = Inl e \<and> is_Exception e"
    then obtain e where r: "fst (generate_and_insert flt w) = Inl e" and e: "is_Exception e"
      by blast
    have "fst (loop_body p flt w) = Inr ()"
      using r e assms(2,3) s by (simp add: loop_body_def case_prod_unfold time_sleep_ok)
    then show ?thesis
      by (simp add: loop_body_events q r e)
  qed
qed


lemma trace_new_events: "trace w' = trace w @ evs \<Longrightarrow> trace w' = trace w @ new_events w w'"
  by (simp add: new_events_def)

lemma trace_main_loop:
  "trace (snd (main_loop p flts w)) = trace w @ new_events w (snd (main_loop p flts w))"
proof (induction flts arbitrary: w)
  case Nil
  show ?case by (simp add: new_events_def)
next
  case (Cons flt flts)
  show ?case
  proof (cases "loop_body p flt w")
    case (Pair r w1)
    then have t: "trace w1 = trace w @ new_events w w1"
      using trace_loop_body [of p flt w] by simp
    show ?thesis
    proof (cases r)
      case (Inl e)
      then show ?thesis using Pair t by simp
    next
      case (Inr u)
      from Cons [of w1] t
      have "trace (snd (main_loop p flts w1)) =
              trace w @ new_events w w1 @ new_events w1 (snd (main_loop p flts w1))"
        by simp
      then have "trace (snd (main_loop p flts w1)) =
                   trace w @ new_events w (snd (main_loop p flts w1))"
        by (rule trace_new_events)
      then show ?thesis
        using Pair Inr by simp
    qed
  qed
qed

lemma main_loop_step:
  assumes "loop_body p flt w = (Inr u, w1)"
  shows "new_events w (snd (main_loop p (flt # flts) w)) =
           new_events w (snd (loop_body p flt w)) @ new_events w1 (snd (main_loop p flts w1))"
proof -
  have a: "trace w1 = trace w @ new_events w (snd (loop_body p flt w))"
    using trace_loop_body [of p flt w] assms by simp
  have b: "trace (snd (main_loop p (flt # flts) w)) =
             trace w1 @ new_events w1 (snd (main_loop p flts w1))"
    using trace_main_loop [of p flts w1] assms by simp
  from new_events_trans [OF a b] show ?thesis .
qed


lemma main_loop_running:
  assumes "0 \<le> p" and "p \<le> 9223372036"
  shows "list_all undisturbed flts \<Longrightarrow>
         fst (main_loop p flts w) = Running \<and>
         filter is_sleep (new_events w (snd (main_loop p flts w))) =
           replicate (length flts) (Sleep p)"
proof (induction flts arbitrary: w)
  case Nil
  show ?case by (simp add: new_events_def)
next
  case (Cons flt flts)
  then have u: "undisturbed flt" and us: "list_all undisturbed flts" by simp_all
  obtain w1 where l: "loop_body p flt w = (Inr (), w1)"
    using loop_body_undisturbed [OF u assms, of w] by (cases "loop_body p flt w") auto
  from loop_body_undisturbed [OF u assms, of w] Cons.IH [OF us, of w1] show ?case
    by (simp add: main_loop_step [OF l] del: main_loop.simps) (simp add: l)
qed

lemma main_parsed:
  "py_int (fst (get_env ''GEN_PERIOD_SEC'' ''300'' w)) = Inr p \<Longrightarrow>
   main flts w = main_loop p flts (main_start p w)"
  by (simp add: main_def main_start_def Let_def case_prod_unfold)

lemma main_unparsed:
  "py_int (fst (get_env ''GEN_PERIOD_SEC'' ''300'' w)) = Inl e \<Longrightarrow>
   main flts w = (Terminated e, emit (Getenv ''GEN_PERIOD_SEC'') w)"
  by (simp add: main_def Let_def case_prod_unfold get_env_snd)

lemma trace_main_start:
  "\<exists>evs. trace (main_start p w) = trace w @ Getenv ''GEN_PERIOD_SEC'' # evs \<and>
         period_reads evs = 0 \<and> filter is_sleep evs = []"
  by (simp add: main_start_def Let_def case_prod_unfold get_env_def emit_simps print_simps
      period_reads_def)


lemma py_int_300: "py_int ''300'' = Inr 300"
  by code_simp


lemma py_int_separator:
  "py_int [CHR 0x1F, CHR ''5''] =
     Inl (ValueError (''invalid literal for int() with base 10: '' @
            [CHR 0x27, CHR 0x5C] @ ''x1f5'' @ [CHR 0x27]))"
  by code_simp

lemma insert_sql_words:
  "py_split insert_sql =
     [''INSERT'', ''INTO'', ''telemetry_legacy'', ''(recorded_at,'', ''voltage,'', ''temp,'',
      ''source_file)'', ''VALUES'', ''(%s,'', ''%s,'', ''%s,'', ''%s)'']"
  by code_simp

lemma sample_draws:
  "draw sample_world (drawn sample_world) = 1 / 2"
  "draw sample_world (Suc (drawn sample_world)) = 0"
  by (simp_all add: draw_def sample_world_def)

lemma round_half_even_int: "round_half_even (of_int k) = k"
  by (simp add: round_half_even_def)

lemma sample_values:
  "iter_voltage sample_world = 79 / 10"
  "iter_temp sample_world = - 50"
proof -
  have "(790::rat) = of_int 790" "(- 5000::rat) = of_int (- 5000)" by simp_all
  then have "round_half_even 790 = 790" "round_half_even (- 5000) = - 5000"
    by (simp_all only: round_half_even_int)
  then show "iter_voltage sample_world = 79 / 10" "iter_temp sample_world = - 50"
    by (simp_all add: iter_voltage_def iter_temp_def sample_draws py_round_def)
qed









lemma sample_config:
  "iter_config sample_world =
     \<lparr>csv_out_dir = ''/data/csv'', pg_host = ''localhost'', pg_port = ''5432'',
      pg_user = ''monouser'', pg_password = ''monopass'', pg_database = ''monolith''\<rparr>"
  by (simp add: iter_config_def read_config_fst get_env_def sample_world_def)

lemma database_events:
  assumes "mkdir_fault flt = None" and "fst (iter_csv flt w) = Inr ()"
  shows "filter is_db_event (new_events w (snd (generate_and_insert flt w))) =
     Connect (pg_host (iter_config w)) (pg_port (iter_config w)) (pg_user (iter_config w))
       (pg_password (iter_config w)) (pg_database (iter_config w)) #
     (case connect_fault flt of
        Some x \<Rightarrow> []
      | None \<Rightarrow>
          Cursor #
            (case cursor_fault flt of
               Some x \<Rightarrow> []
             | None \<Rightarrow>
                 Execute insert_sql (iter_row w) #
                   (case execute_fault flt of
                      Some x \<Rightarrow> [CursorClose]
                    | None \<Rightarrow>
                        Commit # CursorClose #
                          (case commit_fault flt of
                             Some x \<Rightarrow> []
                           | None \<Rightarrow> [ConnClose]))))"
  by (simp add: generate_and_insert_events [OF assms] filter_getenv handler_events_no_db
      split: option.split)

text \<open>
  C7 as stated fails when a database call raises: with the database unreachable, an
  iteration that has written its CSV file makes one database call, the \<open>connect\<close>, and
  neither inserts nor commits nor closes.
\<close>

theorem connect_failure_counterexample:
  "mkdir_fault (no_faults\<lparr>connect_fault := Some (Psycopg2Error ''could not connect'')\<rparr>) = None \<and>
   fst (iter_csv (no_faults\<lparr>connect_fault := Some (Psycopg2Error ''could not connect'')\<rparr>)
          sample_world) = Inr () \<and>
   filter is_db_event
     (new_events sample_world
        (snd (generate_and_insert
                (no_faults\<lparr>connect_fault := Some (Psycopg2Error ''could not connect'')\<rparr>)
                sample_world))) =
     [Connect ''localhost'' ''5432'' ''monouser'' ''monopass'' ''monolith'']"
proof -
  let ?f = "no_faults\<lparr>connect_fault := Some (Psycopg2Error ''could not connect'')\<rparr>"
  have m: "mkdir_fault ?f = None"
    by (simp add: no_faults_def)
  have c: "fst (iter_csv ?f sample_world) = Inr ()"
    by (simp add: iter_csv_ok no_faults_def)
  have "filter is_db_event (new_events sample_world (snd (generate_and_insert ?f sample_world))) =
     [Connect ''localhost'' ''5432'' ''monouser'' ''monopass'' ''monolith'']"
    by (simp add: database_events [OF m c] sample_config)
  with m c show ?thesis
    by (intro conjI)
qed

text \<open>
  C7, amended. On every iteration that reaches the database step, the first database
  call is a \<open>connect\<close> with the five parameters read from the environment in this very
  iteration, and it is the only \<open>connect\<close> of the iteration: no connection is carried over
  from an earlier one. The statement executed is
  \<open>INSERT INTO telemetry_legacy (recorded_at, voltage, temp, source_file) VALUES (%s, %s, %s, %s)\<close>,
  parameterized, and its arguments are the four fields of the reading in that order. The
  database calls go as far as the first one that raises: connect, cursor, execute, commit,
  the closing of the cursor (also after a failed execute or commit), and the explicit
  close of the connection. When no database call raises, the iteration makes exactly these
  six calls and returns.
\<close>

theorem database_step_calls:
  assumes "mkdir_fault flt = None" and "fst (iter_csv flt w) = Inr ()"
  shows "take 1 (filter is_db_event (new_events w (snd (generate_and_insert flt w)))) =
           [Connect (pg_host (iter_config w)) (pg_port (iter_config w)) (pg_user (iter_config w))
              (pg_password (iter_config w)) (pg_database (iter_config w))] \<and>
         length (filter is_connect (new_events w (snd (generate_and_insert flt w)))) = 1 \<and>
         map (dict_get (iter_data w)) [''recorded_at'', ''voltage'', ''temp'', ''source_file''] =
           map Inr (iter_row w) \<and>
         py_split insert_sql =
           [''INSERT'', ''INTO'', ''telemetry_legacy'', ''(recorded_at,'', ''voltage,'',
            ''temp,'', ''source_file)'', ''VALUES'', ''(%s,'', ''%s,'', ''%s,'', ''%s)''] \<and>
         filter is_db_event (new_events w (snd (generate_and_insert flt w))) =
           Connect (pg_host (iter_config w)) (pg_port (iter_config w)) (pg_user (iter_config w))
             (pg_password (iter_config w)) (pg_database (iter_config w)) #
           (case connect_fault flt of
              Some x \<Rightarrow> []
            | None \<Rightarrow>
                Cursor #
                  (case cursor_fault flt of
                     Some x \<Rightarrow> []
                   | None \<Rightarrow>
                       Execute insert_sql (iter_row w) #
                         (case execute_fault flt of
                            Some x \<Rightarrow> [CursorClose]
                          | None \<Rightarrow>
                              Commit # CursorClose #
                                (case commit_fault flt of
                                   Some x \<Rightarrow> []
                                 | None \<Rightarrow> [ConnClose])))) \<and>
         (connect_fault flt = None \<and> cursor_fault flt = None \<and> execute_fault flt = None \<and>
          commit_fault flt = None \<and> close_fault flt = None \<longrightarrow>
            fst (generate_and_insert flt w) = Inr () \<and>
            filter is_db_event (new_events w (snd (generate_and_insert flt w))) =
              [Connect (pg_host (iter_config w)) (pg_port (iter_config w))
                 (pg_user (iter_config w)) (pg_password (iter_config w))
                 (pg_database (iter_config w)),
               Cursor, Execute insert_sql (iter_row w), Commit, CursorClose, ConnClose])"
proof -
  note ev = database_events [OF assms]
  have a: "take 1 (filter is_db_event (new_events w (snd (generate_and_insert flt w)))) =
           [Connect (pg_host (iter_config w)) (pg_port (iter_config w)) (pg_user (iter_config w))
              (pg_password (iter_config w)) (pg_database (iter_config w))]"
    by (simp add: ev)
  have b: "length (filter is_connect (new_events w (snd (generate_and_insert flt w)))) = 1"
    by (simp add: generate_and_insert_events [OF assms] filter_getenv handler_events_def
        split: option.split)
  have c: "map (dict_get (iter_data w)) [''recorded_at'', ''voltage'', ''temp'', ''source_file''] =
           map Inr (iter_row w)"
    by (simp add: iter_reading_fst iter_row_def dict_get_def)
  have d: "fst (generate_and_insert flt w) = Inr () \<and>
           filter is_db_event (new_events w (snd (generate_and_insert flt w))) =
              [Connect (pg_host (iter_config w)) (pg_port (iter_config w))
                 (pg_user (iter_config w)) (pg_password (iter_config w))
                 (pg_database (iter_config w)),
               Cursor, Execute insert_sql (iter_row w), Commit, CursorClose, ConnClose]"
    if "connect_fault flt = None \<and> cursor_fault flt = None \<and> execute_fault flt = None \<and>
          commit_fault flt = None \<and> close_fault flt = None"
    using that by (simp add: ev generate_and_insert_result [OF assms] iter_db_fst)
  from d have e: "connect_fault flt = None \<and> cursor_fault flt = None \<and>
      execute_fault flt = None \<and> commit_fault flt = None \<and> close_fault flt = None \<longrightarrow>
        fst (generate_and_insert flt w) = Inr () \<and>
        filter is_db_event (new_events w (snd (generate_and_insert flt w))) =
          [Connect (pg_host (iter_config w)) (pg_port (iter_config w))
             (pg_user (iter_config w)) (pg_password (iter_config w))
             (pg_database (iter_config w)),
           Cursor, Execute insert_sql (iter_row w), Commit, CursorClose, ConnClose]"
    by (rule impI)
  from a b c insert_sql_words ev e show ?thesis
    by (intro conjI)
qed

theorem database_step_calls_witness:
  "length (filter is_connect
     (new_events sample_world (snd (generate_and_insert no_faults sample_world)))) = 1 \<and>
   fst (generate_and_insert no_faults sample_world) = Inr () \<and>
   filter is_db_event (new_events sample_world (snd (generate_and_insert no_faults sample_world))) =
     [Connect ''localhost'' ''5432'' ''monouser'' ''monopass'' ''monolith'',
      Cursor,
      Execute insert_sql
        [PyStr ''2024-03-09 23:59:59'', PyFloat (79 / 10), PyFloat (- 50),
         PyStr ''telemetry_20240309_235958.csv''],
      Commit, CursorClose, ConnClose]"
proof -
  have m: "mkdir_fault no_faults = None"
    by (simp add: no_faults_def)
  have c: "fst (iter_csv no_faults sample_world) = Inr ()"
    by (simp add: iter_csv_ok no_faults_def)
  have n: "connect_fault no_faults = None \<and> cursor_fault no_faults = None \<and>
           execute_fault no_faults = None \<and> commit_fault no_faults = None \<and>
           close_fault no_faults = None"
    by (simp add: no_faults_def)
  have r: "iter_row sample_world =
             [PyStr ''2024-03-09 23:59:59'', PyFloat (79 / 10), PyFloat (- 50),
              PyStr ''telemetry_20240309_235958.csv'']"
    unfolding iter_row_def sample_clock sample_stamps sample_values by simp
  note t = database_step_calls [OF m c]
  note t2 = t [THEN conjunct2, THEN conjunct1]
  note t6 = t [THEN conjunct2, THEN conjunct2, THEN conjunct2, THEN conjunct2, THEN conjunct2,
               THEN mp, OF n, unfolded sample_config r, simplified]
  from t2 t6 show ?thesis
    by (intro conjI) simp_all
qed











lemma main_sleeps:
  assumes "py_int (fst (get_env ''GEN_PERIOD_SEC'' ''300'' w)) = Inr p"
  shows "filter is_sleep (new_events w (snd (main flts w))) =
         filter is_sleep (new_events (main_start p w) (snd (main_loop p flts (main_start p w))))"
proof -
  obtain evs where s: "trace (main_start p w) = trace w @ Getenv ''GEN_PERIOD_SEC'' # evs"
    and q: "filter is_sleep evs = []"
    using trace_main_start [of p w] by blast
  have "new_events w (snd (main flts w)) =
          (Getenv ''GEN_PERIOD_SEC'' # evs) @
          new_events (main_start p w) (snd (main_loop p flts (main_start p w)))"
    unfolding main_parsed [OF assms]
    by (rule new_events_trans [OF s]) (rule trace_main_loop)
  then show ?thesis
    using q by simp
qed


lemma ascii_samples:
  "is_ascii ''300''"
  "is_ascii ''7''"
  "is_ascii [CHR 0x1F, CHR ''5'']"
  by code_simp+

text \<open>
  C5. An exception of class \<open>Exception\<close> that leaves \<open>generate_and_insert\<close> is caught by
  the handler of the loop: the iteration goes on with the message of that handler on the
  error stream and then the sleep, and the loop runs the next iteration. The loop never
  exits under normal operation: with a period that \<open>time.sleep\<close> accepts and with no
  \<open>KeyboardInterrupt\<close>, \<open>SystemExit\<close> or failing sleep, the loop has gone through \<open>n\<close>
  sleeps after any \<open>n\<close> iterations and is still running, and so is \<open>main\<close>. A value of
  \<open>GEN_PERIOD_SEC\<close> that \<open>int\<close> rejects ends the program at start-up, after the read of
  the variable and before anything else. (\<open>int\<close> is modelled for ASCII strings.)
\<close>

theorem outer_loop_never_exits:
  "(fst (generate_and_insert flt w) = Inl e \<and> is_Exception e \<and> 0 \<le> p \<and> p \<le> 9223372036 \<and>
    sleep_fault flt = None \<longrightarrow>
      loop_body p flt w =
        (Inr (), emit (Sleep p) (print Stderr (LegacyError e) (snd (generate_and_insert flt w)))) \<and>
      new_events w (snd (loop_body p flt w)) =
        new_events w (snd (generate_and_insert flt w)) @
        [Print Stderr (LegacyError e), Sleep p] \<and>
      main_loop p (flt # flts) w =
        main_loop p flts
          (emit (Sleep p) (print Stderr (LegacyError e) (snd (generate_and_insert flt w))))) \<and>
   (0 \<le> p \<and> p \<le> 9223372036 \<and> list_all undisturbed flts \<longrightarrow>
      fst (main_loop p flts w) = Running \<and>
      filter is_sleep (new_events w (snd (main_loop p flts w))) =
        replicate (length flts) (Sleep p)) \<and>
   (is_ascii (fst (get_env ''GEN_PERIOD_SEC'' ''300'' w)) \<and>
    py_int (fst (get_env ''GEN_PERIOD_SEC'' ''300'' w)) = Inr p \<and> 0 \<le> p \<and> p \<le> 9223372036 \<and>
    list_all undisturbed flts \<longrightarrow>
      fst (main flts w) = Running \<and>
      filter is_sleep (new_events w (snd (main flts w))) = replicate (length flts) (Sleep p)) \<and>
   (is_ascii (fst (get_env ''GEN_PERIOD_SEC'' ''300'' w)) \<and>
    py_int (fst (get_env ''GEN_PERIOD_SEC'' ''300'' w)) = Inl e \<longrightarrow>
      fst (main flts w) = Terminated e \<and>
      new_events w (snd (main flts w)) = [Getenv ''GEN_PERIOD_SEC''])"
proof -
  have a: "fst (generate_and_insert flt w) = Inl e \<and> is_Exception e \<and> 0 \<le> p \<and>
           p \<le> 9223372036 \<and> sleep_fault flt = None \<longrightarrow>
      loop_body p flt w =
        (Inr (), emit (Sleep p) (print Stderr (LegacyError e) (snd (generate_and_insert flt w)))) \<and>
      new_events w (snd (loop_body p flt w)) =
        new_events w (snd (generate_and_insert flt w)) @
        [Print Stderr (LegacyError e), Sleep p] \<and>
      main_loop p (flt # flts) w =
        main_loop p flts
          (emit (Sleep p) (print Stderr (LegacyError e) (snd (generate_and_insert flt w))))"
  proof
    assume h: "fst (generate_and_insert flt w) = Inl e \<and> is_Exception e \<and> 0 \<le> p \<and>
           p \<le> 9223372036 \<and> sleep_fault flt = None"
    have l: "loop_body p flt w =
        (Inr (), emit (Sleep p) (print Stderr (LegacyError e) (snd (generate_and_insert flt w))))"
      using h by (simp add: loop_body_def case_prod_unfold time_sleep_ok)
    have n: "new_events w (snd (loop_body p flt w)) =
        new_events w (snd (generate_and_insert flt w)) @
        [Print Stderr (LegacyError e), Sleep p]"
      using h by (simp add: loop_body_events)
    have m: "main_loop p (flt # flts) w =
        main_loop p flts
          (emit (Sleep p) (print Stderr (LegacyError e) (snd (generate_and_insert flt w))))"
      by (simp add: l)
    from l n m show "loop_body p flt w =
        (Inr (), emit (Sleep p) (print Stderr (LegacyError e) (snd (generate_and_insert flt w)))) \<and>
      new_events w (snd (loop_body p flt w)) =
        new_events w (snd (generate_and_insert flt w)) @
        [Print Stderr (LegacyError e), Sleep p] \<and>
      main_loop p (flt # flts) w =
        main_loop p flts
          (emit (Sleep p) (print Stderr (LegacyError e) (snd (generate_and_insert flt w))))"
      by (intro conjI)
  qed
  have b: "0 \<le> p \<and> p \<le> 9223372036 \<and> list_all undisturbed flts \<longrightarrow>
      fst (main_loop p flts w) = Running \<and>
      filter is_sleep (new_events w (snd (main_loop p flts w))) =
        replicate (length flts) (Sleep p)"
    by (simp add: main_loop_running)
  have c: "is_ascii (fst (get_env ''GEN_PERIOD_SEC'' ''300'' w)) \<and>
    py_int (fst (get_env ''GEN_PERIOD_SEC'' ''300'' w)) = Inr p \<and> 0 \<le> p \<and> p \<le> 9223372036 \<and>
    list_all undisturbed flts \<longrightarrow>
      fst (main flts w) = Running \<and>
      filter is_sleep (new_events w (snd (main flts w))) = replicate (length flts) (Sleep p)"
  proof
    assume h: "is_ascii (fst (get_env ''GEN_PERIOD_SEC'' ''300'' w)) \<and>
      py_int (fst (get_env ''GEN_PERIOD_SEC'' ''300'' w)) = Inr p \<and> 0 \<le> p \<and>
      p \<le> 9223372036 \<and> list_all undisturbed flts"
    then have i: "py_int (fst (get_env ''GEN_PERIOD_SEC'' ''300'' w)) = Inr p"
      and lo: "0 \<le> p" and hi: "p \<le> 9223372036" and u: "list_all undisturbed flts"
      by simp_all
    note r = main_loop_running [OF lo hi u, of "main_start p w"]
    have "fst (main flts w) = Running"
      unfolding main_parsed [OF i] using r by simp
    moreover have "filter is_sleep (new_events w (snd (main flts w))) =
        replicate (length flts) (Sleep p)"
      unfolding main_sleeps [OF i] using r by simp
    ultimately show "fst (main flts w) = Running \<and>
      filter is_sleep (new_events w (snd (main flts w))) = replicate (length flts) (Sleep p)"
      by simp
  qed
  have d: "is_ascii (fst (get_env ''GEN_PERIOD_SEC'' ''300'' w)) \<and>
    py_int (fst (get_env ''GEN_PERIOD_SEC'' ''300'' w)) = Inl e \<longrightarrow>
      fst (main flts w) = Terminated e \<and>
      new_events w (snd (main flts w)) = [Getenv ''GEN_PERIOD_SEC'']"
    by (simp add: main_unparsed new_events_def emit_simps)
  from a b c d show ?thesis
    by (intro conjI)
qed

theorem outer_loop_never_exits_witness:
  "new_events sample_world
     (snd (loop_body 300 (no_faults\<lparr>mkdir_fault := Some (OSError ''No space left on device'')\<rparr>)
            sample_world)) =
     new_events sample_world
       (snd (generate_and_insert
               (no_faults\<lparr>mkdir_fault := Some (OSError ''No space left on device'')\<rparr>)
               sample_world)) @
     [Print Stderr (LegacyError (OSError ''No space left on device'')), Sleep 300] \<and>
   fst (main_loop 300
          [no_faults\<lparr>mkdir_fault := Some (OSError ''No space left on device'')\<rparr>, no_faults]
          sample_world) = Running \<and>
   filter is_sleep
     (new_events sample_world
        (snd (main_loop 300
                [no_faults\<lparr>mkdir_fault := Some (OSError ''No space left on device'')\<rparr>,
                 no_faults] sample_world))) = [Sleep 300, Sleep 300] \<and>
   fst (main [no_faults\<lparr>mkdir_fault := Some (OSError ''No space left on device'')\<rparr>,
              no_faults] sample_world) = Running \<and>
   fst (main [no_faults]
          (sample_world\<lparr>environ := [''GEN_PERIOD_SEC'' \<mapsto> [CHR 0x1F, CHR ''5'']]\<rparr>)) =
     Terminated (ValueError (''invalid literal for int() with base 10: '' @
                   [CHR 0x27, CHR 0x5C] @ ''x1f5'' @ [CHR 0x27])) \<and>
   new_events (sample_world\<lparr>environ := [''GEN_PERIOD_SEC'' \<mapsto> [CHR 0x1F, CHR ''5'']]\<rparr>)
     (snd (main [no_faults]
             (sample_world\<lparr>environ := [''GEN_PERIOD_SEC'' \<mapsto> [CHR 0x1F, CHR ''5'']]\<rparr>))) =
     [Getenv ''GEN_PERIOD_SEC'']"
proof -
  let ?f = "no_faults\<lparr>mkdir_fault := Some (OSError ''No space left on device'')\<rparr>"
  let ?e = "OSError ''No space left on device''"
  let ?w = "sample_world\<lparr>environ := [''GEN_PERIOD_SEC'' \<mapsto> [CHR 0x1F, CHR ''5'']]\<rparr>"
  let ?v = "ValueError (''invalid literal for int() with base 10: '' @
              [CHR 0x27, CHR 0x5C] @ ''x1f5'' @ [CHR 0x27])"
  have s: "fst (get_env ''GEN_PERIOD_SEC'' ''300'' sample_world) = ''300''"
    by (simp add: get_env_def sample_world_def)
  have s': "fst (get_env ''GEN_PERIOD_SEC'' ''300'' ?w) = [CHR 0x1F, CHR ''5'']"
    by (simp add: get_env_def)
  have h1: "fst (generate_and_insert ?f sample_world) = Inl ?e \<and> is_Exception ?e \<and>
            (0::int) \<le> 300 \<and> (300::int) \<le> 9223372036 \<and> sleep_fault ?f = None"
    by (simp add: generate_and_insert_iter no_faults_def)
  have h2: "(0::int) \<le> 300 \<and> (300::int) \<le> 9223372036 \<and> list_all undisturbed [?f, no_faults]"
    by (simp add: undisturbed_def no_faults_def)
  have h3: "is_ascii (fst (get_env ''GEN_PERIOD_SEC'' ''300'' sample_world)) \<and>
            py_int (fst (get_env ''GEN_PERIOD_SEC'' ''300'' sample_world)) = Inr 300 \<and>
            (0::int) \<le> 300 \<and> (300::int) \<le> 9223372036 \<and> list_all undisturbed [?f, no_faults]"
    unfolding s using h2 by (simp add: py_int_300 ascii_samples)
  have h4: "is_ascii (fst (get_env ''GEN_PERIOD_SEC'' ''300'' ?w)) \<and>
            py_int (fst (get_env ''GEN_PERIOD_SEC'' ''300'' ?w)) = Inl ?v"
    unfolding s' by (simp only: py_int_separator ascii_samples simp_thms)
  note t1 = outer_loop_never_exits
    [where flt = ?f and w = sample_world and e = ?e and p = 300 and flts = "[no_faults]",
     THEN conjunct1, THEN mp, OF h1, THEN conjunct2, THEN conjunct1]
  note t2 = outer_loop_never_exits
    [where flt = ?f and w = sample_world and e = ?e and p = 300 and flts = "[?f, no_faults]",
     THEN conjunct2, THEN conjunct1, THEN mp, OF h2]
  note t3 = outer_loop_never_exits
    [where flt = ?f and w = sample_world and e = ?e and p = 300 and flts = "[?f, no_faults]",
     THEN conjunct2, THEN conjunct2, THEN conjunct1, THEN mp, OF h3, THEN conjunct1]
  note t4 = outer_loop_never_exits
    [where flt = ?f and w = ?w and e = ?v and p = 300 and flts = "[no_faults]",
     THEN conjunct2, THEN conjunct2, THEN conjunct2, THEN mp, OF h4]
  have r: "replicate (length [?f, no_faults]) (Sleep 300) = [Sleep 300, Sleep 300]"
    by (simp add: numeral_2_eq_2)
  from t1 t2 [THEN conjunct1] t2 [THEN conjunct2, unfolded r] t3 t4 [THEN conjunct1]
    t4 [THEN conjunct2]
  show ?thesis
    by (intro conjI)
qed





end
